theory Spec2Isabelle
  imports Complex_Main "HOL-Library.Word" "HOL-Library.Signed_Division" "HOL-Library.Log_Nat"
begin

unbundle bit_operations_syntax

section \<open>Conventions of the embedding\<close>

text \<open>
  The C++ sources (\<^verbatim>\<open>RandomGenerator.h\<close>, \<^verbatim>\<open>Rocks.h\<close>, \<^verbatim>\<open>HybridGrassField.h\<close>,
  \<^verbatim>\<open>Game.cpp\<close>) are embedded as HOL functions.
  \<^item> A \<^verbatim>\<open>float\<close> is the \<^typ>\<open>real\<close> number it denotes. Where the code measures a distance
    (\<^verbatim>\<open>updateLODLevels\<close>, \<^verbatim>\<open>performChunkCulling\<close>, the lake test of
    \<^verbatim>\<open>convertToGrassInstances\<close>) every subtraction, product, sum and square root is rounded
    to binary32 (\<open>fsub\<close>, \<open>fmul\<close>, \<open>fadd\<close>, \<open>fsqrt\<close> below); elsewhere the arithmetic is
    exact. Infinities and NaN are not represented.
  \<^item> \<^verbatim>\<open>int\<close> is \<^typ>\<open>int\<close>; C++ \<^verbatim>\<open>/\<close> and \<^verbatim>\<open>%\<close> on \<^verbatim>\<open>int\<close> truncate towards zero and are
    written \<open>sdiv\<close> and \<open>smod\<close>. The cast \<^verbatim>\<open>(int)f\<close> of a float truncates towards zero.
  \<^item> \<^verbatim>\<open>UINT\<close> byte sizes are \<^typ>\<open>32 word\<close>, so the cast \<^verbatim>\<open>(UINT)(n * sizeof(T))\<close> wraps.
  \<^item> A member function becomes a function from the object's state to its new state;
    where the C++ would divide a float by zero, index a vector out of range or resize a
    vector to a negative size, the model returns \<open>None\<close>.
\<close>

definition to_int :: "real \<Rightarrow> int" where
  "to_int v = (if 0 \<le> v then \<lfloor>v\<rfloor> else \<lceil>v\<rceil>)"

text \<open>\<^verbatim>\<open>std::clamp(v, lo, hi)\<close> is \<^verbatim>\<open>(v < lo) ? lo : (hi < v) ? hi : v\<close>.\<close>

definition clamp :: "'a::linorder \<Rightarrow> 'a \<Rightarrow> 'a \<Rightarrow> 'a" where
  "clamp v lo hi = (if v < lo then lo else if hi < v then hi else v)"

text \<open>\<^verbatim>\<open>std::vector::resize(n, d)\<close>: keeps the first \<open>n\<close> elements and pads with \<open>d\<close>.\<close>

definition resize :: "nat \<Rightarrow> 'a \<Rightarrow> 'a list \<Rightarrow> 'a list" where
  "resize n d xs = take n xs @ replicate (n - length xs) d"

subsection \<open>Binary32 arithmetic\<close>

text \<open>
  IEEE 754 binary32 with the default rounding: a result is rounded to the nearest number
  with a 24-bit significand, ties to the even significand, with gradual underflow below
  \<open>2\<^sup>-\<^sup>1\<^sup>2\<^sup>6\<close>. \<open>binade x\<close> is the exponent \<open>e\<close> with \<open>2\<^sup>e \<le> \<bar>x\<bar> < 2\<^sup>e\<^sup>+\<^sup>1\<close>, \<open>rne\<close> rounds to the
  nearest integer, ties to even, and \<open>rnd32\<close> rounds a real to binary32. The exponent is
  not bounded above: a result beyond the largest finite binary32 number, which the
  hardware replaces by an infinity, is outside the model.
\<close>

definition pow2 :: "int \<Rightarrow> real" where
  "pow2 e = (if 0 \<le> e then 2 ^ nat e else 1 / 2 ^ nat (- e))"

definition binade :: "real \<Rightarrow> int" where
  "binade x = (if x = 0 then 0 else \<lfloor>log 2 \<bar>x\<bar>\<rfloor>)"

definition rne :: "real \<Rightarrow> int" where
  "rne q = (let f = \<lfloor>q\<rfloor>; d = q - of_int f
            in if d < 1 / 2 then f else if 1 / 2 < d then f + 1
               else if even f then f else f + 1)"

definition rnd32 :: "real \<Rightarrow> real" where
  "rnd32 x = (if x = 0 then 0
              else let u = pow2 (max (binade x) (- 126) - 23)
                   in of_int (rne (x / u)) * u)"

definition fadd :: "real \<Rightarrow> real \<Rightarrow> real" where
  "fadd a b = rnd32 (a + b)"

definition fsub :: "real \<Rightarrow> real \<Rightarrow> real" where
  "fsub a b = rnd32 (a - b)"

definition fmul :: "real \<Rightarrow> real \<Rightarrow> real" where
  "fmul a b = rnd32 (a * b)"

definition fsqrt :: "real \<Rightarrow> real" where
  "fsqrt a = rnd32 (sqrt a)"

record Vec3 =
  vx :: real
  vy :: real
  vz :: real

definition mkVec3 :: "real \<Rightarrow> real \<Rightarrow> real \<Rightarrow> Vec3" where
  "mkVec3 a b c = \<lparr> vx = a, vy = b, vz = c \<rparr>"

text \<open>
  \<^verbatim>\<open>VegetationItem\<close>, \<^verbatim>\<open>RockInstance\<close> and \<^verbatim>\<open>GrassInstance\<close> all begin with the members
  \<^verbatim>\<open>position\<close>, \<^verbatim>\<open>rotationY\<close>, \<^verbatim>\<open>scale\<close> and carry a \<^verbatim>\<open>typeIndex\<close>; the three records
  extend one base record so that each keeps the member names of the source.
\<close>

record Placed =
  position :: Vec3
  rotationY :: real
  scale :: real
  typeIndex :: int

section \<open>Rocks.h\<close>

record RockInstance = Placed +
  distanceToCamera :: real
  lodLevel :: int

text \<open>\<^verbatim>\<open>RockChunk\<close> and \<^verbatim>\<open>GrassChunk\<close> have the same three members.\<close>

record 'i Chunk =
  centerPos :: Vec3
  instances :: "'i list"
  isVisible :: bool

type_synonym RockChunk = "RockInstance Chunk"

text \<open>
  Of a \<^verbatim>\<open>RockType\<close> only the index of the model path it was loaded from is kept (its
  meshes and texture are opaque handles); its \<^verbatim>\<open>typeIndex\<close> is its place in \<open>rockTypes\<close>
  (\<^verbatim>\<open>type.typeIndex = (int)rockTypes.size()\<close> at the \<^verbatim>\<open>push_back\<close>). An instance buffer is
  \<open>None\<close> for \<^verbatim>\<open>nullptr\<close> and otherwise its \<^verbatim>\<open>bufferSize\<close> in bytes.
\<close>

record Rocks =
  rocks_terrainSizeX :: real
  rocks_terrainSizeZ :: real
  lodDistanceHigh :: real
  lodDistanceMedium :: real
  rockTypes :: "nat list"
  rocks_chunks :: "RockChunk list"
  rocks_allInstances :: "RockInstance list"
  instancesByTypeLOD :: "RockInstance list list list"
  visibleInstancesByTypeLOD :: "RockInstance list list list"
  instanceBuffersByType :: "32 word option list list"
  rocks_viewDistance :: real
  rocks_chunkSize :: real

text \<open>A default-constructed \<^verbatim>\<open>Rocks\<close> object (the member initialisers of the class).\<close>

definition Rocks_new :: Rocks where
  "Rocks_new = \<lparr> rocks_terrainSizeX = 300, rocks_terrainSizeZ = 300,
     lodDistanceHigh = 20, lodDistanceMedium = 50, rockTypes = [],
     rocks_chunks = [], rocks_allInstances = [], instancesByTypeLOD = [],
     visibleInstancesByTypeLOD = [], instanceBuffersByType = [],
     rocks_viewDistance = 100, rocks_chunkSize = 32 \<rparr>"

subsection \<open>Loading and ingestion\<close>

text \<open>
  \<^verbatim>\<open>loadRockTypesWithAutoLOD\<close>: for each of the first \<open>min(#models, #textures)\<close> paths a
  type is pushed unless the model fails to load, has no geometry, or LOD generation
  fails; \<open>loaded i\<close> says that none of these happened for path \<open>i\<close>. A loaded type is
  represented by the index of its path (its name is \<^verbatim>\<open>"Rock_" + std::to_string(i)\<close>).
\<close>

definition loadRockTypesWithAutoLOD :: "(nat \<Rightarrow> bool) \<Rightarrow> nat \<Rightarrow> nat \<Rightarrow> Rocks \<Rightarrow> Rocks" where
  "loadRockTypesWithAutoLOD loaded numModelPaths numTexturePaths s =
     s\<lparr> rockTypes := rockTypes s @ filter loaded [0..<min numModelPaths numTexturePaths] \<rparr>"

text \<open>
  \<^verbatim>\<open>organizeIntoChunks\<close> (the same code in \<^verbatim>\<open>Rocks\<close> and \<^verbatim>\<open>HybridGrassField\<close>): a grid of
  \<open>numChunksX * numChunksZ\<close> empty chunks in row-major order, then every instance is
  appended to the chunk of its clamped cell. The model covers a positive chunk grid, and
  the empty grid when there is no instance; any other case is \<open>None\<close>.
\<close>

definition emptyChunks :: "real \<Rightarrow> real \<Rightarrow> real \<Rightarrow> int \<Rightarrow> int \<Rightarrow> 'i Chunk list" where
  "emptyChunks halfX halfZ chunkSize numChunksX numChunksZ =
     concat (map (\<lambda>cz. map (\<lambda>cx.
        \<lparr> centerPos = mkVec3 (of_int cx * chunkSize - halfX + chunkSize * 0.5) 0
                             (of_int cz * chunkSize - halfZ + chunkSize * 0.5),
          instances = [], isVisible = False \<rparr>) [0..numChunksX - 1]) [0..numChunksZ - 1])"

definition chunkIndex :: "real \<Rightarrow> real \<Rightarrow> real \<Rightarrow> int \<Rightarrow> int \<Rightarrow> Vec3 \<Rightarrow> int" where
  "chunkIndex halfX halfZ chunkSize numChunksX numChunksZ p =
     (let cx = clamp (to_int ((vx p + halfX) / chunkSize)) 0 (numChunksX - 1);
          cz = clamp (to_int ((vz p + halfZ) / chunkSize)) 0 (numChunksZ - 1)
      in cz * numChunksX + cx)"

fun assignToChunks ::
  "(Vec3 \<Rightarrow> int) \<Rightarrow> ('a Placed_scheme) list \<Rightarrow> ('a Placed_scheme) Chunk list
     \<Rightarrow> ('a Placed_scheme) Chunk list option" where
  "assignToChunks idx [] chunks = Some chunks"
| "assignToChunks idx (inst # rest) chunks =
     (let chunkIdx = idx (position inst) in
      if 0 \<le> chunkIdx \<and> chunkIdx < int (length chunks)
      then assignToChunks idx rest
             (chunks[nat chunkIdx :=
                (chunks ! nat chunkIdx)\<lparr> instances := instances (chunks ! nat chunkIdx) @ [inst] \<rparr>])
      else None)"

definition organizeIntoChunks ::
  "real \<Rightarrow> real \<Rightarrow> real \<Rightarrow> ('a Placed_scheme) list \<Rightarrow> ('a Placed_scheme) Chunk list option" where
  "organizeIntoChunks terrainSizeX terrainSizeZ chunkSize allInstances =
     (if chunkSize = 0 then None
      else
        let halfX = terrainSizeX * 0.5;
            halfZ = terrainSizeZ * 0.5;
            numChunksX = \<lceil>terrainSizeX / chunkSize\<rceil>;
            numChunksZ = \<lceil>terrainSizeZ / chunkSize\<rceil>
        in if numChunksX \<le> 0 \<or> numChunksZ \<le> 0
           then (if numChunksX * numChunksZ = 0 \<and> allInstances = [] then Some [] else None)
           else assignToChunks (chunkIndex halfX halfZ chunkSize numChunksX numChunksZ)
                  allInstances (emptyChunks halfX halfZ chunkSize numChunksX numChunksZ))"

definition Rocks_organizeIntoChunks :: "Rocks \<Rightarrow> Rocks option" where
  "Rocks_organizeIntoChunks s =
     map_option (\<lambda>cs. s\<lparr> rocks_chunks := cs \<rparr>)
       (organizeIntoChunks (rocks_terrainSizeX s) (rocks_terrainSizeZ s) (rocks_chunkSize s)
          (rocks_allInstances s))"

text \<open>\<^verbatim>\<open>v[t][lod].push_back(inst)\<close> on a vector of vectors of vectors.\<close>

definition push2 :: "'a list list list \<Rightarrow> nat \<Rightarrow> nat \<Rightarrow> 'a \<Rightarrow> 'a list list list" where
  "push2 v t l a = v[t := (v ! t)[l := v ! t ! l @ [a]]]"

text \<open>
  \<^verbatim>\<open>separateInstancesByTypeAndLOD\<close>: the type index is guarded, the LOD level is not, so
  an instance of a valid type with a level outside \<open>0..2\<close> indexes out of range.
\<close>

fun separateRocks :: "nat \<Rightarrow> RockInstance list \<Rightarrow> RockInstance list list list
                       \<Rightarrow> RockInstance list list list option" where
  "separateRocks n [] byType = Some byType"
| "separateRocks n (inst # rest) byType =
     (if 0 \<le> typeIndex inst \<and> typeIndex inst < int n
      then (if 0 \<le> lodLevel inst \<and> lodLevel inst < 3
            then separateRocks n rest (push2 byType (nat (typeIndex inst)) (nat (lodLevel inst)) inst)
            else None)
      else separateRocks n rest byType)"

definition separateInstancesByTypeAndLOD :: "Rocks \<Rightarrow> Rocks option" where
  "separateInstancesByTypeAndLOD s =
     (let n = length (rockTypes s);
          byType = map (resize 3 []) (resize n [] (instancesByTypeLOD s));
          visible = map (resize 3 []) (resize n [] (visibleInstancesByTypeLOD s))
      in map_option (\<lambda>b. s\<lparr> instancesByTypeLOD := b, visibleInstancesByTypeLOD := visible \<rparr>)
           (separateRocks n (rocks_allInstances s) byType))"

definition sizeof_RockInstanceGPU :: nat where
  "sizeof_RockInstanceGPU = 20"

text \<open>
  \<^verbatim>\<open>createInstanceBuffers\<close>: per type, the total over the three LOD buckets; no buffer when
  the total is zero; otherwise every LOD gets a buffer of
  \<^verbatim>\<open>(UINT)(totalInstances * sizeof(RockInstanceGPU))\<close> bytes, unless the allocation fails
  (\<open>allocOk t lod\<close> is false), which leaves the slot null.
\<close>

definition createInstanceBuffers :: "(nat \<Rightarrow> nat \<Rightarrow> bool) \<Rightarrow> Rocks \<Rightarrow> Rocks" where
  "createInstanceBuffers allocOk s =
     (let n = length (rockTypes s);
          old = resize n [] (instanceBuffersByType s)
      in s\<lparr> instanceBuffersByType :=
           map (\<lambda>t.
             let row = resize 3 None (old ! t);
                 totalInstances = (\<Sum>lod \<leftarrow> [0..<3]. length (instancesByTypeLOD s ! t ! lod))
             in if totalInstances = 0 then row
                else map (\<lambda>lod. if allocOk t lod
                                 then Some (word_of_nat (totalInstances * sizeof_RockInstanceGPU))
                                 else None) [0..<3])
             [0..<n] \<rparr>)"

definition Rocks_finishInit :: "(nat \<Rightarrow> nat \<Rightarrow> bool) \<Rightarrow> Rocks \<Rightarrow> Rocks option" where
  "Rocks_finishInit allocOk s =
     map_option (createInstanceBuffers allocOk) (separateInstancesByTypeAndLOD s)"

text \<open>The index repair of \<^verbatim>\<open>initWithInstances\<close>.\<close>

definition clampTypeIndex :: "int \<Rightarrow> int \<Rightarrow> int" where
  "clampTypeIndex numTypes i =
     (if i < 0 \<or> i \<ge> numTypes
      then (let j = i smod numTypes in if j < 0 then 0 else j)
      else i)"

definition Rocks_initWithInstances ::
  "(nat \<Rightarrow> bool) \<Rightarrow> (nat \<Rightarrow> nat \<Rightarrow> bool) \<Rightarrow> nat \<Rightarrow> nat \<Rightarrow> RockInstance list \<Rightarrow> real \<Rightarrow> real
     \<Rightarrow> Rocks \<Rightarrow> Rocks option" where
  "Rocks_initWithInstances loaded allocOk numModelPaths numTexturePaths preGeneratedInstances
       viewDistance chunkSize s0 =
     (let s1 = s0\<lparr> rocks_viewDistance := viewDistance, rocks_chunkSize := chunkSize \<rparr>;
          s2 = loadRockTypesWithAutoLOD loaded numModelPaths numTexturePaths s1
      in if rockTypes s2 = [] then Some s2
         else
           let numTypes = int (length (rockTypes s2));
               s3 = s2\<lparr> rocks_allInstances :=
                         map (\<lambda>inst. inst\<lparr> typeIndex := clampTypeIndex numTypes (typeIndex inst) \<rparr>)
                             preGeneratedInstances \<rparr>
           in case Rocks_organizeIntoChunks s3 of
                None \<Rightarrow> None
              | Some s4 \<Rightarrow> Rocks_finishInit allocOk s4)"

subsection \<open>updateLODLevels\<close>

definition updateLOD :: "real \<Rightarrow> real \<Rightarrow> Vec3 \<Rightarrow> RockInstance \<Rightarrow> RockInstance" where
  "updateLOD hi med cameraPos inst =
     (let dx = fsub (vx (position inst)) (vx cameraPos);
          dz = fsub (vz (position inst)) (vz cameraPos);
          d = fsqrt (fadd (fmul dx dx) (fmul dz dz))
      in inst\<lparr> distanceToCamera := d,
               lodLevel := (if d < hi then 0 else if d < med then 1 else 2) \<rparr>)"

definition updateLODLevels :: "Vec3 \<Rightarrow> Rocks \<Rightarrow> Rocks" where
  "updateLODLevels cameraPos s =
     s\<lparr> rocks_chunks :=
          map (\<lambda>chunk. chunk\<lparr> instances :=
                 map (updateLOD (lodDistanceHigh s) (lodDistanceMedium s) cameraPos)
                     (instances chunk) \<rparr>)
              (rocks_chunks s) \<rparr>"

definition Rocks_update :: "Vec3 \<Rightarrow> Rocks \<Rightarrow> Rocks" where
  "Rocks_update cameraPos s = updateLODLevels cameraPos s"

subsection \<open>performChunkCulling and draw\<close>

text \<open>
  The chunk loop of \<^verbatim>\<open>performChunkCulling\<close> sets \<open>isVisible\<close> of every chunk and appends the
  instances of the visible ones to the visible buckets; the two effects do not depend on
  each other and are written as a \<open>map\<close> and a \<open>fold\<close> over the chunks.
\<close>

definition chunkInRange :: "real \<Rightarrow> Vec3 \<Rightarrow> 'i Chunk \<Rightarrow> bool" where
  "chunkInRange maxDistSq cameraPos chunk =
     (let dx = fsub (vx (centerPos chunk)) (vx cameraPos);
          dz = fsub (vz (centerPos chunk)) (vz cameraPos)
      in fadd (fmul dx dx) (fmul dz dz) \<le> maxDistSq)"

definition pushVisibleRock :: "nat \<Rightarrow> RockInstance \<Rightarrow> RockInstance list list list
                                \<Rightarrow> RockInstance list list list" where
  "pushVisibleRock n inst vis =
     (if 0 \<le> typeIndex inst \<and> typeIndex inst < int n \<and> 0 \<le> lodLevel inst \<and> lodLevel inst < 3
      then push2 vis (nat (typeIndex inst)) (nat (lodLevel inst)) inst
      else vis)"

text \<open>
  An upload is one \<^verbatim>\<open>memcpy\<close> into a mapped instance buffer: the bucket it serves
  (rock type and LOD level, or grass group and type) and the number of instances copied.
\<close>

record Upload =
  up_row :: nat
  up_col :: nat
  up_count :: nat

text \<open>
  The upload loop skips an empty bucket and a null buffer, and copies only when
  \<^verbatim>\<open>Map\<close> succeeds (\<open>mapOk t lod\<close>).
\<close>

definition rockUploads :: "(nat \<Rightarrow> nat \<Rightarrow> bool) \<Rightarrow> Rocks \<Rightarrow> Upload list" where
  "rockUploads mapOk s =
     concat (map (\<lambda>t. concat (map (\<lambda>lod.
        if visibleInstancesByTypeLOD s ! t ! lod = [] then []
        else if instanceBuffersByType s ! t ! lod = None then []
        else if mapOk t lod
             then [\<lparr> up_row = t, up_col = lod,
                     up_count = length (visibleInstancesByTypeLOD s ! t ! lod) \<rparr>]
             else []) [0..<3])) [0..<length (rockTypes s)])"

definition Rocks_cull :: "Vec3 \<Rightarrow> Rocks \<Rightarrow> Rocks" where
  "Rocks_cull cameraPos s =
     (let cleared = map (map (\<lambda>lodList. [])) (visibleInstancesByTypeLOD s);
          maxDist = fadd (rocks_viewDistance s) (fmul (rocks_chunkSize s) 0.5);
          maxDistSq = fmul maxDist maxDist
      in s\<lparr> rocks_chunks :=
             map (\<lambda>chunk. chunk\<lparr> isVisible := chunkInRange maxDistSq cameraPos chunk \<rparr>)
                 (rocks_chunks s),
           visibleInstancesByTypeLOD :=
             fold (\<lambda>chunk vis.
                     if chunkInRange maxDistSq cameraPos chunk
                     then fold (pushVisibleRock (length (rockTypes s))) (instances chunk) vis
                     else vis)
                  (rocks_chunks s) cleared \<rparr>)"

definition Rocks_performChunkCulling ::
  "(nat \<Rightarrow> nat \<Rightarrow> bool) \<Rightarrow> Vec3 \<Rightarrow> Rocks \<Rightarrow> Rocks \<times> Upload list" where
  "Rocks_performChunkCulling mapOk cameraPos s =
     (let s' = Rocks_cull cameraPos s in (s', rockUploads mapOk s'))"

text \<open>\<^verbatim>\<open>draw\<close> returns at once when no rock type is loaded; the draw calls are not modelled.\<close>

definition Rocks_draw :: "(nat \<Rightarrow> nat \<Rightarrow> bool) \<Rightarrow> Vec3 \<Rightarrow> Rocks \<Rightarrow> Rocks \<times> Upload list" where
  "Rocks_draw mapOk cameraPos s =
     (if rockTypes s = [] then (s, []) else Rocks_performChunkCulling mapOk cameraPos s)"

text \<open>
  What the render loop can do to a \<^verbatim>\<open>Rocks\<close> object after initialisation: \<^verbatim>\<open>update\<close>,
  \<^verbatim>\<open>draw\<close>, and assignments to the public LOD distances.
\<close>

datatype RocksOp =
    RUpdate Vec3
  | RDraw "nat \<Rightarrow> nat \<Rightarrow> bool" Vec3
  | RSetLodDistances real real

fun Rocks_step :: "RocksOp \<Rightarrow> Rocks \<Rightarrow> Rocks" where
  "Rocks_step (RUpdate cameraPos) s = Rocks_update cameraPos s"
| "Rocks_step (RDraw mapOk cameraPos) s = fst (Rocks_draw mapOk cameraPos s)"
| "Rocks_step (RSetLodDistances hi med) s = s\<lparr> lodDistanceHigh := hi, lodDistanceMedium := med \<rparr>"

definition Rocks_run :: "RocksOp list \<Rightarrow> Rocks \<Rightarrow> Rocks" where
  "Rocks_run ops s = fold Rocks_step ops s"

section \<open>HybridGrassField.h\<close>

record GrassInstance = Placed +
  windPhase :: real
  groupIndex :: int

type_synonym GrassChunk = "GrassInstance Chunk"

text \<open>
  Of a \<^verbatim>\<open>GrassType\<close> the members \<^verbatim>\<open>groupIndex\<close> and \<^verbatim>\<open>typeIndex\<close> are kept (the indices of
  its group and type in the configuration); mesh and texture are opaque handles.
\<close>

record GrassGroup =
  types :: "(nat \<times> nat) list"
  instancesByType :: "GrassInstance list list"
  visibleInstancesByType :: "GrassInstance list list"
  instanceBuffers :: "32 word option list"

record HybridGrassField =
  grass_terrainSizeX :: real
  grass_terrainSizeZ :: real
  grass_viewDistance :: real
  groups :: "GrassGroup list"
  grass_chunks :: "GrassChunk list"
  grass_allInstances :: "GrassInstance list"
  grass_chunkSize :: real
  windTime :: real

definition HybridGrassField_new :: HybridGrassField where
  "HybridGrassField_new = \<lparr> grass_terrainSizeX = 300, grass_terrainSizeZ = 300,
     grass_viewDistance = 50, groups = [], grass_chunks = [], grass_allInstances = [],
     grass_chunkSize = 16, windTime = 0 \<rparr>"

subsection \<open>Loading and ingestion\<close>

text \<open>
  \<^verbatim>\<open>loadGrassGroups\<close>: \<open>configs\<close> gives the number of types configured in each group and
  \<open>loaded g t\<close> says that the model of type \<open>t\<close> of group \<open>g\<close> loads. A type that fails to load
  is skipped, and a group is pushed only when at least one of its types loaded.
\<close>

definition loadGrassGroups :: "(nat \<Rightarrow> nat \<Rightarrow> bool) \<Rightarrow> nat list \<Rightarrow> HybridGrassField \<Rightarrow> HybridGrassField" where
  "loadGrassGroups loaded configs s =
     s\<lparr> groups := groups s @
          filter (\<lambda>group. types group \<noteq> [])
            (map (\<lambda>g. \<lparr> types = map (Pair g) (filter (loaded g) [0..<configs ! g]),
                        instancesByType = [], visibleInstancesByType = [],
                        instanceBuffers = [] \<rparr>)
                 [0..<length configs]) \<rparr>"

definition fixGrassIndices :: "GrassGroup list \<Rightarrow> GrassInstance \<Rightarrow> GrassInstance" where
  "fixGrassIndices gs inst =
     (let g = clampTypeIndex (int (length gs)) (groupIndex inst);
          maxType = int (length (types (gs ! nat g)));
          t = (if maxType > 0 then clampTypeIndex maxType (typeIndex inst) else typeIndex inst)
      in inst\<lparr> groupIndex := g, typeIndex := t \<rparr>)"

definition Grass_organizeIntoChunks :: "HybridGrassField \<Rightarrow> HybridGrassField option" where
  "Grass_organizeIntoChunks s =
     map_option (\<lambda>cs. s\<lparr> grass_chunks := cs \<rparr>)
       (organizeIntoChunks (grass_terrainSizeX s) (grass_terrainSizeZ s) (grass_chunkSize s)
          (grass_allInstances s))"

definition pushGrassByType :: "GrassInstance \<Rightarrow> GrassGroup list \<Rightarrow> GrassGroup list" where
  "pushGrassByType inst gs =
     (if 0 \<le> groupIndex inst \<and> groupIndex inst < int (length gs)
      then (let g = nat (groupIndex inst); group = gs ! g; t = nat (typeIndex inst) in
            if 0 \<le> typeIndex inst \<and> typeIndex inst < int (length (instancesByType group))
            then gs[g := group\<lparr> instancesByType :=
                          (instancesByType group)[t := instancesByType group ! t @ [inst]] \<rparr>]
            else gs)
      else gs)"

definition separateInstancesByGroupAndType :: "HybridGrassField \<Rightarrow> HybridGrassField" where
  "separateInstancesByGroupAndType s =
     s\<lparr> groups :=
          fold pushGrassByType (grass_allInstances s)
            (map (\<lambda>group. group\<lparr>
                    instancesByType := resize (length (types group)) [] (instancesByType group),
                    visibleInstancesByType :=
                      resize (length (types group)) [] (visibleInstancesByType group) \<rparr>)
               (groups s)) \<rparr>"

definition sizeof_GrassInstanceGPU :: nat where
  "sizeof_GrassInstanceGPU = 24"

text \<open>
  \<^verbatim>\<open>createInstanceBuffers\<close>: every type of a group gets a buffer for the group's total
  instance count (1000 when that total is zero), of
  \<^verbatim>\<open>(UINT)(maxInstances * sizeof(GrassInstanceGPU))\<close> bytes; a failed allocation
  (\<open>allocOk g t\<close> false) leaves the slot null.
\<close>

definition Grass_createInstanceBuffers :: "(nat \<Rightarrow> nat \<Rightarrow> bool) \<Rightarrow> HybridGrassField \<Rightarrow> HybridGrassField" where
  "Grass_createInstanceBuffers allocOk s =
     s\<lparr> groups :=
          map (\<lambda>g.
            let group = groups s ! g;
                totalGroupInstances =
                  (\<Sum>t \<leftarrow> [0..<length (types group)]. length (instancesByType group ! t));
                maxInstances = (if totalGroupInstances = 0 then 1000 else totalGroupInstances)
            in group\<lparr> instanceBuffers :=
                 map (\<lambda>t. if allocOk g t
                           then Some (word_of_nat (maxInstances * sizeof_GrassInstanceGPU))
                           else None)
                     [0..<length (types group)] \<rparr>)
            [0..<length (groups s)] \<rparr>"

definition Grass_finishInit :: "(nat \<Rightarrow> nat \<Rightarrow> bool) \<Rightarrow> HybridGrassField \<Rightarrow> HybridGrassField" where
  "Grass_finishInit allocOk s = Grass_createInstanceBuffers allocOk (separateInstancesByGroupAndType s)"

text \<open>
  \<^verbatim>\<open>initWithInstances\<close>; \<^verbatim>\<open>normalizeWeights\<close> only fills the weight tables of the random
  generator of \<^verbatim>\<open>init\<close>, which nothing here reads, and is left out.
\<close>

definition Grass_initWithInstances ::
  "(nat \<Rightarrow> nat \<Rightarrow> bool) \<Rightarrow> (nat \<Rightarrow> nat \<Rightarrow> bool) \<Rightarrow> nat list \<Rightarrow> GrassInstance list \<Rightarrow> real \<Rightarrow> real
     \<Rightarrow> HybridGrassField \<Rightarrow> HybridGrassField option" where
  "Grass_initWithInstances loaded allocOk groupConfigs preGeneratedInstances
       viewDistance chunkSize s0 =
     (let s1 = s0\<lparr> grass_viewDistance := viewDistance, grass_chunkSize := chunkSize \<rparr>;
          s2 = loadGrassGroups loaded groupConfigs s1
      in if groups s2 = [] then Some s2
         else
           let s3 = s2\<lparr> grass_allInstances :=
                         map (fixGrassIndices (groups s2)) preGeneratedInstances \<rparr>
           in map_option (Grass_finishInit allocOk) (Grass_organizeIntoChunks s3))"

subsection \<open>performChunkCulling and draw\<close>

definition pushVisibleGrass :: "GrassInstance \<Rightarrow> GrassGroup list \<Rightarrow> GrassGroup list" where
  "pushVisibleGrass inst gs =
     (if 0 \<le> groupIndex inst \<and> groupIndex inst < int (length gs)
      then (let g = nat (groupIndex inst); group = gs ! g; t = nat (typeIndex inst) in
            if 0 \<le> typeIndex inst \<and> typeIndex inst < int (length (visibleInstancesByType group))
            then gs[g := group\<lparr> visibleInstancesByType :=
                          (visibleInstancesByType group)
                             [t := visibleInstancesByType group ! t @ [inst]] \<rparr>]
            else gs)
      else gs)"

definition grassUploads :: "(nat \<Rightarrow> nat \<Rightarrow> bool) \<Rightarrow> HybridGrassField \<Rightarrow> Upload list" where
  "grassUploads mapOk s =
     concat (map (\<lambda>g. concat (map (\<lambda>t.
        if visibleInstancesByType (groups s ! g) ! t = [] then []
        else if instanceBuffers (groups s ! g) ! t = None then []
        else if mapOk g t
             then [\<lparr> up_row = g, up_col = t,
                     up_count = length (visibleInstancesByType (groups s ! g) ! t) \<rparr>]
             else []) [0..<length (types (groups s ! g))])) [0..<length (groups s)])"

definition Grass_cull :: "Vec3 \<Rightarrow> HybridGrassField \<Rightarrow> HybridGrassField" where
  "Grass_cull cameraPos s =
     (let cleared = map (\<lambda>group. group\<lparr> visibleInstancesByType :=
                            map (\<lambda>list. []) (visibleInstancesByType group) \<rparr>) (groups s);
          maxDist = fadd (grass_viewDistance s) (fmul (grass_chunkSize s) 0.5);
          maxDistSq = fmul maxDist maxDist
      in s\<lparr> grass_chunks :=
             map (\<lambda>chunk. chunk\<lparr> isVisible := chunkInRange maxDistSq cameraPos chunk \<rparr>)
                 (grass_chunks s),
           groups :=
             fold (\<lambda>chunk gs.
                     if chunkInRange maxDistSq cameraPos chunk
                     then fold pushVisibleGrass (instances chunk) gs
                     else gs)
                  (grass_chunks s) cleared \<rparr>)"

definition Grass_performChunkCulling ::
  "(nat \<Rightarrow> nat \<Rightarrow> bool) \<Rightarrow> Vec3 \<Rightarrow> HybridGrassField \<Rightarrow> HybridGrassField \<times> Upload list" where
  "Grass_performChunkCulling mapOk cameraPos s =
     (let s' = Grass_cull cameraPos s in (s', grassUploads mapOk s'))"

definition Grass_draw ::
  "(nat \<Rightarrow> nat \<Rightarrow> bool) \<Rightarrow> Vec3 \<Rightarrow> HybridGrassField \<Rightarrow> HybridGrassField \<times> Upload list" where
  "Grass_draw mapOk cameraPos s =
     (if groups s = [] then (s, []) else Grass_performChunkCulling mapOk cameraPos s)"

datatype GrassOp =
    GUpdate real
  | GDraw "nat \<Rightarrow> nat \<Rightarrow> bool" Vec3

fun Grass_step :: "GrassOp \<Rightarrow> HybridGrassField \<Rightarrow> HybridGrassField" where
  "Grass_step (GUpdate deltaTime) s = s\<lparr> windTime := windTime s + deltaTime \<rparr>"
| "Grass_step (GDraw mapOk cameraPos) s = fst (Grass_draw mapOk cameraPos s)"

definition Grass_run :: "GrassOp list \<Rightarrow> HybridGrassField \<Rightarrow> HybridGrassField" where
  "Grass_run ops s = fold Grass_step ops s"

section \<open>RandomGenerator.h\<close>

subsection \<open>The random number library\<close>

text \<open>
  \<^verbatim>\<open>std::mt19937\<close>, the distributions and \<^verbatim>\<open>std::shuffle\<close> belong to the C++ standard
  library, whose algorithms differ between implementations. They are a parameter of the
  model: a generator state of any type \<open>'r\<close> with
  \<^item> \<open>rng_seed\<close>: the state after \<^verbatim>\<open>rng.seed(seed)\<close> (or construction from a seed);
  \<^item> \<open>uniform_real a b\<close>: one draw of \<^verbatim>\<open>std::uniform_real_distribution<float>(a, b)\<close>;
  \<^item> \<open>uniform_int a b\<close>: one draw of \<^verbatim>\<open>std::uniform_int_distribution<int>(a, b)\<close>;
  \<^item> \<open>shuffle_perm n\<close>: the rearrangement \<^verbatim>\<open>std::shuffle\<close> applies to \<open>n\<close> elements, as the
    list of the old positions of the new elements.
  Each draw returns the value and the advanced state.
\<close>

record 'r rng_ops =
  rng_seed :: "32 word \<Rightarrow> 'r"
  uniform_real :: "real \<Rightarrow> real \<Rightarrow> 'r \<Rightarrow> real \<times> 'r"
  uniform_int :: "int \<Rightarrow> int \<Rightarrow> 'r \<Rightarrow> int \<times> 'r"
  shuffle_perm :: "nat \<Rightarrow> 'r \<Rightarrow> nat list \<times> 'r"


subsection \<open>Data\<close>

datatype VegetationType = Grass | Rock

record VegetationItem = Placed +
  type :: VegetationType
  radius :: real

record ClusterConfig =
  probability :: real
  minItems :: int
  maxItems :: int
  cluster_radius :: real
  falloff :: real

record VegetationConfig =
  density :: real
  minPointSpacing :: real
  rockProbability :: real
  noiseInfluence :: real
  noiseScale :: real
  grassMinScale :: real
  grassMaxScale :: real
  grassRadius :: real
  grassCluster :: ClusterConfig
  rockMinScale :: real
  rockMaxScale :: real
  rockRadius :: real
  rockCluster :: ClusterConfig
  minSlope :: real
  maxSlope :: real
  minHeight :: real
  maxHeight :: real



subsection \<open>SpatialHashGrid\<close>

record SpatialHashGrid =
  cellSize :: real
  offsetX :: real
  offsetZ :: real
  gridWidth :: int
  gridHeight :: int
  cells :: "VegetationItem list list"







subsection \<open>NoiseGenerator\<close>


definition fade :: "real \<Rightarrow> real" where
  "fade t = t * t * t * (t * (t * 6 - 15) + 10)"

definition lerp :: "real \<Rightarrow> real \<Rightarrow> real \<Rightarrow> real" where
  "lerp t a b = a + t * (b - a)"

definition grad :: "int \<Rightarrow> real \<Rightarrow> real \<Rightarrow> real" where
  "grad hash x y =
     (let h = hash AND 3;
          u = (if h < 2 then x else y);
          v = (if h < 2 then y else x)
      in (if h AND 1 \<noteq> 0 then - u else u) + (if h AND 2 \<noteq> 0 then - 2 * v else 2 * v))"

definition noise2D :: "int list \<Rightarrow> real \<Rightarrow> real \<Rightarrow> real" where
  "noise2D perm x y =
     (let X = \<lfloor>x\<rfloor> AND 255;
          Y = \<lfloor>y\<rfloor> AND 255;
          xf = x - of_int \<lfloor>x\<rfloor>;
          yf = y - of_int \<lfloor>y\<rfloor>;
          u = fade xf;
          v = fade yf;
          A = perm ! nat X + Y;
          AA = perm ! nat A;
          AB = perm ! nat (A + 1);
          B = perm ! nat (X + 1) + Y;
          BA = perm ! nat B;
          BB = perm ! nat (B + 1)
      in lerp v
           (lerp u (grad (perm ! nat AA) xf yf) (grad (perm ! nat BA) (xf - 1) yf))
           (lerp u (grad (perm ! nat AB) xf (yf - 1)) (grad (perm ! nat BB) (xf - 1) (yf - 1))))"

text \<open>
  The loop of \<^verbatim>\<open>fbm\<close> over its four locals \<^verbatim>\<open>total\<close> (here \<open>totalNoise\<close>), \<^verbatim>\<open>amplitude\<close>,
  \<^verbatim>\<open>frequency\<close> and \<^verbatim>\<open>maxValue\<close>; the first argument counts the iterations left.
\<close>

fun fbm_loop :: "nat \<Rightarrow> int list \<Rightarrow> real \<Rightarrow> real \<Rightarrow> real \<Rightarrow> real \<times> real \<times> real \<times> real
                  \<Rightarrow> real \<times> real \<times> real \<times> real" where
  "fbm_loop 0 perm x y persistence st = st"
| "fbm_loop (Suc n) perm x y persistence (totalNoise, amplitude, frequency, maxValue) =
     fbm_loop n perm x y persistence
       (totalNoise + noise2D perm (x * frequency) (y * frequency) * amplitude,
        amplitude * persistence,
        frequency * 2,
        maxValue + amplitude)"

definition fbm :: "int list \<Rightarrow> real \<Rightarrow> real \<Rightarrow> int \<Rightarrow> real \<Rightarrow> real" where
  "fbm perm x y octaves persistence =
     (case fbm_loop (nat octaves) perm x y persistence (0, 1, 1, 0) of
        (totalNoise, amplitude, frequency, maxValue) \<Rightarrow> totalNoise / maxValue)"

subsection \<open>VegetationGenerator\<close>

text \<open>
  The terrain is the height query \<^verbatim>\<open>sampleHeightWorld\<close> of the \<^verbatim>\<open>HeightmapTerrain\<close> the
  pointer refers to, or \<open>None\<close> for a null pointer. A \<^verbatim>\<open>Vec2\<close> spawn point is a pair.
\<close>

record 'r VegetationGenerator =
  terrain :: "(real \<Rightarrow> real \<Rightarrow> real) option"
  config :: VegetationConfig
  terrainSizeX :: real
  terrainSizeZ :: real
  rng :: 'r
  noise :: "int list"
  spatialGrid :: SpatialHashGrid
  grassItems :: "VegetationItem list"
  rockItems :: "VegetationItem list"





definition determineType ::
  "'r rng_ops \<Rightarrow> real \<Rightarrow> real \<Rightarrow> 'r VegetationGenerator \<Rightarrow> VegetationType \<times> 'r VegetationGenerator" where
  "determineType ops x z s =
     (let noiseValue = fbm (noise s) (x * noiseScale (config s)) (z * noiseScale (config s)) 4 0.5;
          noiseValue' = (noiseValue + 1) * 0.5;
          rockChance = clamp (rockProbability (config s)
                                + (noiseValue' - 0.5) * noiseInfluence (config s) * 2) 0.05 0.95;
          (u, r) = uniform_real ops 0 1 (rng s)
      in (if u < rockChance then Rock else Grass, s\<lparr> rng := r \<rparr>))"








section \<open>Game.cpp\<close>

text \<open>
  Of the lake only \<^verbatim>\<open>config.center\<close> and \<^verbatim>\<open>config.radius\<close> are read; the global \<^verbatim>\<open>g_lake\<close> is
  an argument, \<open>None\<close> for the null pointer.
\<close>

record Lake =
  lake_center :: Vec3
  lake_radius :: real

definition insideLake :: "Lake option \<Rightarrow> VegetationItem \<Rightarrow> bool" where
  "insideLake g_lake item =
     (case g_lake of
        None \<Rightarrow> False
      | Some lake \<Rightarrow>
          (let margin = 2;
               dx = fsub (vx (position item)) (vx (lake_center lake));
               dz = fsub (vz (position item)) (vz (lake_center lake));
               distSq = fadd (fmul dx dx) (fmul dz dz);
               radiusWithMargin = fadd (lake_radius lake) margin
           in distSq < fmul radiusWithMargin radiusWithMargin))"

text \<open>The loop of \<^verbatim>\<open>convertToGrassInstances\<close>: a wind phase is drawn for a kept item only.\<close>

fun convertItems :: "'r rng_ops \<Rightarrow> Lake option \<Rightarrow> int \<Rightarrow> int \<Rightarrow> VegetationItem list \<Rightarrow> 'r
                       \<Rightarrow> GrassInstance list" where
  "convertItems ops g_lake numGroups numTypesPerGroup [] r = []"
| "convertItems ops g_lake numGroups numTypesPerGroup (item # rest) r =
     (if insideLake g_lake item then convertItems ops g_lake numGroups numTypesPerGroup rest r
      else
        let (phase, r') = uniform_real ops 0 6.28318 r;
            inst = \<lparr> position = position item, rotationY = rotationY item, scale = scale item,
                     typeIndex = (if numGroups > 0 \<and> numTypesPerGroup > 0
                                  then (typeIndex item sdiv numGroups) smod numTypesPerGroup
                                  else 0),
                     windPhase = phase,
                     groupIndex = (if numGroups > 0 \<and> numTypesPerGroup > 0
                                   then typeIndex item smod numGroups else 0) \<rparr>
        in inst # convertItems ops g_lake numGroups numTypesPerGroup rest r')"

definition convertToGrassInstances ::
  "'r rng_ops \<Rightarrow> Lake option \<Rightarrow> VegetationItem list \<Rightarrow> int \<Rightarrow> int \<Rightarrow> GrassInstance list" where
  "convertToGrassInstances ops g_lake items numGroups numTypesPerGroup =
     convertItems ops g_lake numGroups numTypesPerGroup items (rng_seed ops 12345)"

section \<open>Example scenes\<close>

text \<open>
  A small rock field: a 64 by 32 terrain in two chunks of size 32, two rock types, and
  three supplied instances of which two carry type indices outside the palette.
\<close>

definition exRock :: "real \<Rightarrow> real \<Rightarrow> int \<Rightarrow> RockInstance" where
  "exRock a b t = \<lparr> position = mkVec3 a 0 b, rotationY = 0, scale = 1, typeIndex = t,
                    distanceToCamera = 0, lodLevel = 2 \<rparr>"

definition exRocks0 :: Rocks where
  "exRocks0 = Rocks_new\<lparr> rocks_terrainSizeX := 64, rocks_terrainSizeZ := 32 \<rparr>"

definition exRocksInit :: "Rocks option" where
  "exRocksInit = Rocks_initWithInstances (\<lambda>i. True) (\<lambda>t l. True) 2 2
      [exRock (-16) 0 0, exRock 16 0 5, exRock 20 3 (-3)] 10 32 exRocks0"

definition exRocks :: Rocks where
  "exRocks = (case exRocksInit of Some s \<Rightarrow> s | None \<Rightarrow> exRocks0)"

text \<open>
  A small grass field on the same terrain: two groups, of two types and of one type, and
  three supplied instances with group and type indices outside the palette.
\<close>

definition exGrassInst :: "real \<Rightarrow> real \<Rightarrow> int \<Rightarrow> int \<Rightarrow> GrassInstance" where
  "exGrassInst a b g t = \<lparr> position = mkVec3 a 0 b, rotationY = 0, scale = 1, typeIndex = t,
                           windPhase = 0, groupIndex = g \<rparr>"

definition exGrass0 :: HybridGrassField where
  "exGrass0 = HybridGrassField_new\<lparr> grass_terrainSizeX := 64, grass_terrainSizeZ := 32 \<rparr>"

definition exGrassInit :: "HybridGrassField option" where
  "exGrassInit = Grass_initWithInstances (\<lambda>g t. True) (\<lambda>g t. True) [2, 1]
      [exGrassInst (-16) 0 0 1, exGrassInst 16 0 7 3, exGrassInst 20 3 (-1) 5] 10 32 exGrass0"

definition exGrass :: HybridGrassField where
  "exGrass = (case exGrassInit of Some s \<Rightarrow> s | None \<Rightarrow> exGrass0)"

definition exCam :: Vec3 where
  "exCam = mkVec3 (-16) 0 0"

text \<open>
  A generator run. The random number library is a parameter of the model; here it replays a
  fixed script of draws from the unit interval (a real draw from \<open>[a, b]\<close> is
  \<open>a + u (b - a)\<close>, an integer draw from \<open>a..b\<close> is \<open>a + floor (u (b - a + 1))\<close>), and
  the shuffle applies a given permutation. The scene is the \<^verbatim>\<open>Rocky\<close> preset on a flat
  terrain of 10 by 2.5 world units, generated with seed 42.
\<close>

fun replay_real :: "real \<Rightarrow> real \<Rightarrow> real list \<Rightarrow> real \<times> real list" where
  "replay_real a b [] = (a, [])"
| "replay_real a b (u # us) = (a + u * (b - a), us)"

fun replay_int :: "int \<Rightarrow> int \<Rightarrow> real list \<Rightarrow> int \<times> real list" where
  "replay_int a b [] = (a, [])"
| "replay_int a b (u # us) = (a + \<lfloor>u * of_int (b - a + 1)\<rfloor>, us)"

definition replay_ops :: "(nat \<Rightarrow> nat list) \<Rightarrow> real list \<Rightarrow> (real list) rng_ops" where
  "replay_ops perm script =
     \<lparr> rng_seed = (\<lambda>seed. script), uniform_real = replay_real, uniform_int = replay_int,
       shuffle_perm = (\<lambda>n r. (perm n, r)) \<rparr>"


definition exScript :: "real list" where
  "exScript = [0.5, 0.5, 0.05,   0.6, 0.5, 0.5,   0.5, 0.5, 0.05,   0.15, 0.5, 0.5,
               0.01, 0.9, 0.75, 0.5, 0,
               0.01, 0.9, 0.75, 0.5, 0]"

definition exOps :: "(real list) rng_ops" where
  "exOps = replay_ops (\<lambda>n. [0..<n]) exScript"








section \<open>Notions used in the statements and proofs\<close>

text \<open>
  The shape of the per-type LOD tables, the instances a subsystem holds, a freshly
  constructed object, the capacity condition of an upload, and the invariants that
  initialisation establishes and every later operation keeps.
\<close>

definition shape3 :: "nat \<Rightarrow> 'a list list list \<Rightarrow> bool" where
  "shape3 n v = (length v = n \<and> (\<forall>t < n. length (v ! t) = 3))"

definition rockMatch :: "nat \<Rightarrow> nat \<Rightarrow> RockInstance \<Rightarrow> bool" where
  "rockMatch t l inst = (typeIndex inst = int t \<and> lodLevel inst = int l)"

definition cullFold :: "nat \<Rightarrow> (RockChunk \<Rightarrow> bool) \<Rightarrow> RockChunk list \<Rightarrow> RockInstance list list list \<Rightarrow> RockInstance list list list" where
  "cullFold n P chunks v = fold (\<lambda>chunk vis. if P chunk then fold (pushVisibleRock n) (instances chunk) vis else vis) chunks v"

definition chunkInsts :: "'i Chunk list \<Rightarrow> 'i list" where
  "chunkInsts cs = concat (map instances cs)"

definition typeCount :: "nat \<Rightarrow> ('a Placed_scheme) list \<Rightarrow> nat" where
  "typeCount t insts = length (filter (\<lambda>inst. typeIndex inst = int t) insts)"

definition totalOverLODs :: "'a list list list \<Rightarrow> nat \<Rightarrow> nat" where
  "totalOverLODs b t = (\<Sum>lod \<leftarrow> [0..<3]. length (b ! t ! lod))"

definition bucketInsts :: "'a list list list \<Rightarrow> 'a set" where
  "bucketInsts b = (\<Union>row \<in> set b. \<Union>bucket \<in> set row. set bucket)"

definition rocks_held :: "Rocks \<Rightarrow> RockInstance set" where
  "rocks_held s = set (rocks_allInstances s) \<union> set (chunkInsts (rocks_chunks s))
       \<union> bucketInsts (instancesByTypeLOD s) \<union> bucketInsts (visibleInstancesByTypeLOD s)"

definition rocks_fresh :: "Rocks \<Rightarrow> bool" where
  "rocks_fresh s = (rockTypes s = [] \<and> rocks_chunks s = [] \<and> rocks_allInstances s = []
        \<and> instancesByTypeLOD s = [] \<and> visibleInstancesByTypeLOD s = []
        \<and> instanceBuffersByType s = [])"

definition rocks_ok :: "Rocks \<Rightarrow> bool" where
  "rocks_ok s =
     (let n = length (rockTypes s) in
        shape3 n (visibleInstancesByTypeLOD s) \<and> shape3 n (instancesByTypeLOD s)
      \<and> (\<forall>t<n. totalOverLODs (instancesByTypeLOD s) t = typeCount t (chunkInsts (rocks_chunks s)))
      \<and> (\<forall>t<n. \<forall>l<3. \<forall>sz. instanceBuffersByType s ! t ! l = Some sz \<longrightarrow>
             sz = word_of_nat (totalOverLODs (instancesByTypeLOD s) t * sizeof_RockInstanceGPU))
      \<and> (\<forall>inst \<in> rocks_held s. 0 \<le> typeIndex inst \<and> typeIndex inst < int n))"


definition grassMatch :: "nat \<Rightarrow> nat \<Rightarrow> GrassInstance \<Rightarrow> bool" where
  "grassMatch g t inst = (groupIndex inst = int g \<and> typeIndex inst = int t)"

definition pushRow :: "GrassInstance \<Rightarrow> GrassInstance list list list \<Rightarrow> GrassInstance list list list" where
  "pushRow inst b =
     (if 0 \<le> groupIndex inst \<and> groupIndex inst < int (length b)
         \<and> 0 \<le> typeIndex inst \<and> typeIndex inst < int (length (b ! nat (groupIndex inst)))
      then push2 b (nat (groupIndex inst)) (nat (typeIndex inst)) inst else b)"

definition cullRows :: "(GrassChunk \<Rightarrow> bool) \<Rightarrow> GrassChunk list \<Rightarrow> GrassInstance list list list
                          \<Rightarrow> GrassInstance list list list" where
  "cullRows P chunks b =
     fold (\<lambda>chunk rows. if P chunk then fold pushRow (instances chunk) rows else rows) chunks b"

definition pairCount :: "nat \<Rightarrow> nat \<Rightarrow> GrassInstance list \<Rightarrow> nat" where
  "pairCount g t insts = length (filter (grassMatch g t) insts)"

definition totalGroupInstances :: "GrassGroup \<Rightarrow> nat" where
  "totalGroupInstances grp =
     (\<Sum>t \<leftarrow> [0..<length (types grp)]. length (instancesByType grp ! t))"

definition grass_held :: "HybridGrassField \<Rightarrow> GrassInstance set" where
  "grass_held s = set (grass_allInstances s) \<union> set (chunkInsts (grass_chunks s))
       \<union> bucketInsts (map instancesByType (groups s))
       \<union> bucketInsts (map visibleInstancesByType (groups s))"

definition grass_fresh :: "HybridGrassField \<Rightarrow> bool" where
  "grass_fresh s = (groups s = [] \<and> grass_chunks s = [] \<and> grass_allInstances s = [])"

definition grassIndexOk :: "GrassGroup list \<Rightarrow> GrassInstance \<Rightarrow> bool" where
  "grassIndexOk gs inst =
     (0 \<le> groupIndex inst \<and> groupIndex inst < int (length gs)
    \<and> 0 \<le> typeIndex inst
    \<and> typeIndex inst < int (length (types (gs ! nat (groupIndex inst)))))"

definition grass_ok :: "HybridGrassField \<Rightarrow> bool" where
  "grass_ok s =
     (let gs = groups s in
        (\<forall>g<length gs. types (gs ! g) \<noteq> []
            \<and> length (instancesByType (gs ! g)) = length (types (gs ! g))
            \<and> length (visibleInstancesByType (gs ! g)) = length (types (gs ! g)))
      \<and> (\<forall>g<length gs. \<forall>t<length (types (gs ! g)).
            length (instancesByType (gs ! g) ! t) = pairCount g t (chunkInsts (grass_chunks s)))
      \<and> (\<forall>g<length gs. \<forall>t<length (types (gs ! g)). \<forall>sz.
            instanceBuffers (gs ! g) ! t = Some sz \<longrightarrow>
            sz = word_of_nat ((if totalGroupInstances (gs ! g) = 0 then 1000
                               else totalGroupInstances (gs ! g)) * sizeof_GrassInstanceGPU))
      \<and> (\<forall>inst \<in> grass_held s. grassIndexOk gs inst))"

text \<open>
  The squared XZ distance as the code computes it in binary32, the squared culling limit
  of \<^verbatim>\<open>performChunkCulling\<close> and the squared lake limit of \<^verbatim>\<open>convertToGrassInstances\<close>.
\<close>

definition floatDistSq :: "Vec3 \<Rightarrow> Vec3 \<Rightarrow> real" where
  "floatDistSq p q =
     fadd (fmul (fsub (vx p) (vx q)) (fsub (vx p) (vx q)))
          (fmul (fsub (vz p) (vz q)) (fsub (vz p) (vz q)))"




definition lakeDistance :: "Lake \<Rightarrow> Vec3 \<Rightarrow> real" where
  "lakeDistance lake p =
     sqrt ((vx p - vx (lake_center lake))\<^sup>2 + (vz p - vz (lake_center lake))\<^sup>2)"





text \<open>
  The lake of the game (centre (30, 0, 40), radius 25) and an item near its shore whose
  coordinates are binary32 numbers.
\<close>

definition exGameLake :: Lake where
  "exGameLake = \<lparr> lake_center = mkVec3 30 0 40, lake_radius = 25 \<rparr>"

definition exShoreItem :: VegetationItem where
  "exShoreItem = \<lparr> position = mkVec3 (7282655 / 131072) 0 (4103447 / 131072), rotationY = 0,
                    scale = 1, typeIndex = 0, type = Grass, radius = 0.3 \<rparr>"


section \<open>Binary32 rounding\<close>

lemma pow2_powr: "pow2 e = 2 powr of_int e"
  unfolding pow2_def by (rule powr_int [of 2 e, simplified, symmetric])

lemma pow2_pos: "0 < pow2 e" by (simp add: pow2_powr)

lemma pow2_add: "pow2 (a + b) = pow2 a * pow2 b"
  by (simp add: pow2_powr powr_add)

lemma binade_eq:
  assumes "pow2 e \<le> \<bar>x\<bar>" and "\<bar>x\<bar> < pow2 (e + 1)"
  shows "binade x = e"
proof -
  have p: "0 < \<bar>x\<bar>" using assms(1) pow2_pos [of e] by linarith
  have "2 powr of_int e \<le> \<bar>x\<bar> \<and> \<bar>x\<bar> < 2 powr (of_int e + 1)"
    using assms by (simp add: pow2_powr)
  then show ?thesis unfolding binade_def
    using floor_log_eq_powr_iff [of "\<bar>x\<bar>" 2 e] p by auto
qed

text \<open>The exponent computed from bit lengths: the equation used for evaluation.\<close>

lemma pow2_nat: "pow2 (int n) = 2 ^ n" by (simp add: pow2_def)

lemma binade_code [code]:
  "binade x = (if x = 0 then 0
               else if 1 \<le> \<bar>x\<bar> then bitlen \<lfloor>\<bar>x\<bar>\<rfloor> - 1
               else - bitlen (\<lceil>1 / \<bar>x\<bar>\<rceil> - 1))"
proof (cases "x = 0")
  case True
  then show ?thesis by (simp add: binade_def)
next
  case nz: False
  show ?thesis
  proof (cases "1 \<le> \<bar>x\<bar>")
    case True
    define n where "n = \<lfloor>\<bar>x\<bar>\<rfloor>"
    have n1: "1 \<le> n" using True by (simp add: n_def)
    then have n0: "0 < n" by simp
    define b where "b = bitlen n"
    have b1: "1 \<le> b" using n0 by (simp add: b_def bitlen_def floorlog_def)
    from bitlen_bounds [OF n0] have lo: "2 ^ nat (b - 1) \<le> n" and hi: "n < 2 ^ nat b"
      by (simp_all add: b_def)
    have "pow2 (b - 1) = 2 ^ nat (b - 1)" using b1 by (simp add: pow2_def)
    moreover have "(2 ^ nat (b - 1) :: real) \<le> of_int n"
      using lo by (metis of_int_le_iff of_int_numeral of_int_power)
    moreover have "of_int n \<le> \<bar>x\<bar>" by (simp add: n_def)
    ultimately have l: "pow2 (b - 1) \<le> \<bar>x\<bar>" by linarith
    have "n + 1 \<le> 2 ^ nat b" using hi by simp
    then have "(of_int (n + 1) :: real) \<le> 2 ^ nat b"
      by (metis of_int_le_iff of_int_numeral of_int_power)
    moreover have "\<bar>x\<bar> < of_int (n + 1)" by (simp add: n_def)
    moreover have "pow2 (b - 1 + 1) = 2 ^ nat b" using b1 by (simp add: pow2_def)
    ultimately have u: "\<bar>x\<bar> < pow2 (b - 1 + 1)" by linarith
    from binade_eq [OF l u] show ?thesis using nz True by (simp add: b_def n_def)
  next
    case False
    define y where "y = 1 / \<bar>x\<bar>"
    have xp: "0 < \<bar>x\<bar>" using nz by simp
    have y1: "1 < y" using False xp by (simp add: y_def)
    define c where "c = \<lceil>y\<rceil> - 1"
    have c0: "0 < c" using y1 by (simp add: c_def)
    have cy: "of_int c < y" by (simp add: c_def) linarith
    have yc: "y \<le> of_int (c + 1)" by (simp add: c_def)
    define b where "b = bitlen c"
    have b1: "1 \<le> b" using c0 by (simp add: b_def bitlen_def floorlog_def)
    from bitlen_bounds [OF c0] have lo: "2 ^ nat (b - 1) \<le> c" and hi: "c < 2 ^ nat b"
      by (simp_all add: b_def)
    have "(2 ^ nat (b - 1) :: real) \<le> of_int c"
      using lo by (metis of_int_le_iff of_int_numeral of_int_power)
    with cy have ylo: "2 ^ nat (b - 1) < y" by linarith
    have "c + 1 \<le> 2 ^ nat b" using hi by simp
    then have "(of_int (c + 1) :: real) \<le> 2 ^ nat b"
      by (metis of_int_le_iff of_int_numeral of_int_power)
    with yc have yhi: "y \<le> 2 ^ nat b" by linarith
    have xy: "\<bar>x\<bar> = 1 / y" using xp by (simp add: y_def)
    have yp: "0 < y" using y1 by simp
    have pb: "pow2 (- b) = 1 / 2 ^ nat b" using b1 by (simp add: pow2_def)
    have pb1: "pow2 (- b + 1) = 1 / 2 ^ nat (b - 1)"
    proof (cases "b = 1")
      case True then show ?thesis by (simp add: pow2_def)
    next
      case False
      with b1 have "\<not> 0 \<le> - b + 1" by simp
      moreover have "nat (- (- b + 1)) = nat (b - 1)" by simp
      ultimately show ?thesis by (simp add: pow2_def)
    qed
    have l: "pow2 (- b) \<le> \<bar>x\<bar>"
      unfolding pb xy using yhi yp by (simp add: frac_le)
    have u: "\<bar>x\<bar> < pow2 (- b + 1)"
      unfolding pb1 xy using ylo yp by (simp add: frac_less2)
    from binade_eq [OF l u] show ?thesis using nz False by (simp add: b_def c_def y_def)
  qed
qed

section \<open>LOD classification of rocks\<close>

lemma updateLOD_level:
  "lodLevel (updateLOD hi med cam inst) =
     (if distanceToCamera (updateLOD hi med cam inst) < hi then 0
      else if distanceToCamera (updateLOD hi med cam inst) < med then 1 else 2)"
  by (simp add: updateLOD_def Let_def)

lemma updateLOD_distance:
  "distanceToCamera (updateLOD hi med cam inst) =
     fsqrt (floatDistSq (position inst) cam)"
  by (simp add: updateLOD_def Let_def floatDistSq_def)

lemma updateLOD_position:
  "position (updateLOD hi med cam inst) = position inst"
  by (simp add: updateLOD_def Let_def)

lemma updateLOD_rest:
  "rotationY (updateLOD hi med cam inst) = rotationY inst"
  "scale (updateLOD hi med cam inst) = scale inst"
  "typeIndex (updateLOD hi med cam inst) = typeIndex inst"
  by (simp_all add: updateLOD_def Let_def)

text \<open>
  C7. \<^verbatim>\<open>Rocks::updateLODLevels(cameraPos)\<close> keeps the chunks and the instances of every chunk
  in place, with their position, rotation, scale and type index, and the thresholds. It
  stores into \<open>distanceToCamera\<close> of every instance the value \<open>d\<close> that binary32 arithmetic
  gives for \<open>sqrtf(dx * dx + dz * dz)\<close>, with \<open>dx\<close> and \<open>dz\<close> the coordinate differences between
  the instance and the camera, and sets \<open>lodLevel\<close> to 0 exactly when \<open>d < lodDistanceHigh\<close>,
  to 1 exactly when \<open>lodDistanceHigh \<le> d < lodDistanceMedium\<close>, and to 2 exactly in the
  remaining case.
\<close>

theorem C7_lod_thresholds:
  assumes "c < length (rocks_chunks s)"
      and "i < length (instances (rocks_chunks s ! c))"
    shows "length (rocks_chunks (updateLODLevels cameraPos s)) = length (rocks_chunks s)
       \<and> length (instances (rocks_chunks (updateLODLevels cameraPos s) ! c))
           = length (instances (rocks_chunks s ! c))
       \<and> lodDistanceHigh (updateLODLevels cameraPos s) = lodDistanceHigh s
       \<and> lodDistanceMedium (updateLODLevels cameraPos s) = lodDistanceMedium s
       \<and> (let old = instances (rocks_chunks s ! c) ! i;
               new = instances (rocks_chunks (updateLODLevels cameraPos s) ! c) ! i;
               d = distanceToCamera new
           in position new = position old \<and> rotationY new = rotationY old
            \<and> scale new = scale old \<and> typeIndex new = typeIndex old
            \<and> d = fsqrt (floatDistSq (position old) cameraPos)
            \<and> (lodLevel new = 0 \<longleftrightarrow> d < lodDistanceHigh s)
            \<and> (lodLevel new = 1 \<longleftrightarrow> lodDistanceHigh s \<le> d \<and> d < lodDistanceMedium s)
            \<and> (lodLevel new = 2 \<longleftrightarrow>
                  \<not> d < lodDistanceHigh s
                \<and> \<not> (lodDistanceHigh s \<le> d \<and> d < lodDistanceMedium s)))"
proof -
  let ?f = "updateLOD (lodDistanceHigh s) (lodDistanceMedium s) cameraPos"
  let ?old = "instances (rocks_chunks s ! c) ! i"
  have len: "length (rocks_chunks (updateLODLevels cameraPos s)) = length (rocks_chunks s)"
    by (simp add: updateLODLevels_def)
  have ch: "instances (rocks_chunks (updateLODLevels cameraPos s) ! c)
              = map ?f (instances (rocks_chunks s ! c))"
    using assms(1) by (simp add: updateLODLevels_def)
  have new: "instances (rocks_chunks (updateLODLevels cameraPos s) ! c) ! i = ?f ?old"
    unfolding ch using assms(2) by simp
  have thr: "lodDistanceHigh (updateLODLevels cameraPos s) = lodDistanceHigh s"
            "lodDistanceMedium (updateLODLevels cameraPos s) = lodDistanceMedium s"
    by (simp_all add: updateLODLevels_def)
  have lvl: "lodLevel (?f ?old) =
      (if distanceToCamera (?f ?old) < lodDistanceHigh s then 0
       else if distanceToCamera (?f ?old) < lodDistanceMedium s then 1 else 2)"
    by (rule updateLOD_level)
  have lv: "(lodLevel (?f ?old) = 0 \<longleftrightarrow> distanceToCamera (?f ?old) < lodDistanceHigh s)
          \<and> (lodLevel (?f ?old) = 1 \<longleftrightarrow>
                lodDistanceHigh s \<le> distanceToCamera (?f ?old)
              \<and> distanceToCamera (?f ?old) < lodDistanceMedium s)
          \<and> (lodLevel (?f ?old) = 2 \<longleftrightarrow>
                \<not> distanceToCamera (?f ?old) < lodDistanceHigh s
              \<and> \<not> (lodDistanceHigh s \<le> distanceToCamera (?f ?old)
                    \<and> distanceToCamera (?f ?old) < lodDistanceMedium s))"
    unfolding lvl by auto
  show ?thesis
    unfolding Let_def new
    using len thr lv
    by (simp add: ch updateLOD_position updateLOD_rest updateLOD_distance)
qed

section \<open>Facts about the example scenes\<close>

lemmas ex_rocks_defs = exRocksInit_def exRocks0_def Rocks_new_def loadRockTypesWithAutoLOD_def
  Let_def clampTypeIndex_def exRock_def Rocks_initWithInstances_def Rocks_organizeIntoChunks_def
  organizeIntoChunks_def emptyChunks_def chunkIndex_def clamp_def to_int_def mkVec3_def
  signed_modulo_int_def Rocks_finishInit_def separateInstancesByTypeAndLOD_def resize_def
  push2_def createInstanceBuffers_def sizeof_RockInstanceGPU_def upto.simps

lemmas ex_grass_defs = exGrassInit_def exGrass0_def HybridGrassField_new_def loadGrassGroups_def
  Let_def clampTypeIndex_def exGrassInst_def Grass_initWithInstances_def Grass_organizeIntoChunks_def
  organizeIntoChunks_def emptyChunks_def chunkIndex_def clamp_def to_int_def mkVec3_def
  signed_modulo_int_def Grass_finishInit_def separateInstancesByGroupAndType_def resize_def
  pushGrassByType_def fixGrassIndices_def Grass_createInstanceBuffers_def
  sizeof_GrassInstanceGPU_def upto.simps

lemma exRocksInit_Some: "exRocksInit = Some exRocks"
  unfolding exRocks_def by (simp add: ex_rocks_defs)

lemma exRocks_eq: "exRocks =
  \<lparr> rocks_terrainSizeX = 64, rocks_terrainSizeZ = 32, lodDistanceHigh = 20,
    lodDistanceMedium = 50, rockTypes = [0, 1],
    rocks_chunks =
      [\<lparr> centerPos = mkVec3 (-16) 0 0, instances = [exRock (-16) 0 0], isVisible = False \<rparr>,
       \<lparr> centerPos = mkVec3 16 0 0, instances = [exRock 16 0 1, exRock 20 3 0],
         isVisible = False \<rparr>],
    rocks_allInstances = [exRock (-16) 0 0, exRock 16 0 1, exRock 20 3 0],
    instancesByTypeLOD = [[[], [], [exRock (-16) 0 0, exRock 20 3 0]], [[], [], [exRock 16 0 1]]],
    visibleInstancesByTypeLOD = [[[], [], []], [[], [], []]],
    instanceBuffersByType = [[Some 40, Some 40, Some 40], [Some 20, Some 20, Some 20]],
    rocks_viewDistance = 10, rocks_chunkSize = 32 \<rparr>"
  by code_simp

lemma exGrassInit_Some: "exGrassInit = Some exGrass"
  unfolding exGrass_def by (simp add: ex_grass_defs)

lemma exGrass_eq: "exGrass =
  \<lparr> grass_terrainSizeX = 64, grass_terrainSizeZ = 32, grass_viewDistance = 10,
    groups =
      [\<lparr> types = [(0, 0), (0, 1)],
         instancesByType = [[], [exGrassInst (-16) 0 0 1, exGrassInst 20 3 0 1]],
         visibleInstancesByType = [[], []],
         instanceBuffers = [Some 48, Some 48] \<rparr>,
       \<lparr> types = [(1, 0)],
         instancesByType = [[exGrassInst 16 0 1 0]],
         visibleInstancesByType = [[]],
         instanceBuffers = [Some 24] \<rparr>],
    grass_chunks =
      [\<lparr> centerPos = mkVec3 (-16) 0 0, instances = [exGrassInst (-16) 0 0 1], isVisible = False \<rparr>,
       \<lparr> centerPos = mkVec3 16 0 0, instances = [exGrassInst 16 0 1 0, exGrassInst 20 3 0 1],
         isVisible = False \<rparr>],
    grass_allInstances = [exGrassInst (-16) 0 0 1, exGrassInst 16 0 1 0, exGrassInst 20 3 0 1],
    grass_chunkSize = 32, windTime = 0 \<rparr>"
  by code_simp

lemma exRocks_fresh: "rocks_fresh exRocks0"
  by (simp add: rocks_fresh_def exRocks0_def Rocks_new_def)

lemma exGrass_fresh: "grass_fresh exGrass0"
  by (simp add: grass_fresh_def exGrass0_def HybridGrassField_new_def)



lemma exRocks_cull: "Rocks_cull exCam (exRocks\<lparr> lodDistanceHigh := 25, lodDistanceMedium := 60 \<rparr>) =
  \<lparr> rocks_terrainSizeX = 64, rocks_terrainSizeZ = 32, lodDistanceHigh = 25,
    lodDistanceMedium = 60, rockTypes = [0, 1],
    rocks_chunks =
      [\<lparr> centerPos = mkVec3 (-16) 0 0, instances = [exRock (-16) 0 0], isVisible = True \<rparr>,
       \<lparr> centerPos = mkVec3 16 0 0, instances = [exRock 16 0 1, exRock 20 3 0],
         isVisible = False \<rparr>],
    rocks_allInstances = [exRock (-16) 0 0, exRock 16 0 1, exRock 20 3 0],
    instancesByTypeLOD = [[[], [], [exRock (-16) 0 0, exRock 20 3 0]], [[], [], [exRock 16 0 1]]],
    visibleInstancesByTypeLOD = [[[], [], [exRock (-16) 0 0]], [[], [], []]],
    instanceBuffersByType = [[Some 40, Some 40, Some 40], [Some 20, Some 20, Some 20]],
    rocks_viewDistance = 10, rocks_chunkSize = 32 \<rparr>"
  by code_simp

lemma exGrass_cull: "Grass_cull exCam (exGrass\<lparr> windTime := 1 \<rparr>) =
  \<lparr> grass_terrainSizeX = 64, grass_terrainSizeZ = 32, grass_viewDistance = 10,
    groups =
      [\<lparr> types = [(0, 0), (0, 1)],
         instancesByType = [[], [exGrassInst (-16) 0 0 1, exGrassInst 20 3 0 1]],
         visibleInstancesByType = [[], [exGrassInst (-16) 0 0 1]],
         instanceBuffers = [Some 48, Some 48] \<rparr>,
       \<lparr> types = [(1, 0)],
         instancesByType = [[exGrassInst 16 0 1 0]],
         visibleInstancesByType = [[]],
         instanceBuffers = [Some 24] \<rparr>],
    grass_chunks =
      [\<lparr> centerPos = mkVec3 (-16) 0 0, instances = [exGrassInst (-16) 0 0 1], isVisible = True \<rparr>,
       \<lparr> centerPos = mkVec3 16 0 0, instances = [exGrassInst 16 0 1 0, exGrassInst 20 3 0 1],
         isVisible = False \<rparr>],
    grass_allInstances = [exGrassInst (-16) 0 0 1, exGrassInst 16 0 1 0, exGrassInst 20 3 0 1],
    grass_chunkSize = 32, windTime = 1 \<rparr>"
  by code_simp






theorem C7_witness:
  "1 < length (rocks_chunks exRocks) \<and> 0 < length (instances (rocks_chunks exRocks ! 1))
   \<and> instances (rocks_chunks exRocks ! 1) ! 0 = exRock 16 0 1
   \<and> position (instances (rocks_chunks (updateLODLevels (mkVec3 (-14) 0 0) exRocks) ! 1) ! 0)
       = mkVec3 16 0 0
   \<and> distanceToCamera (instances (rocks_chunks (updateLODLevels (mkVec3 (-14) 0 0) exRocks) ! 1) ! 0)
       = 30
   \<and> lodDistanceHigh exRocks = 20 \<and> lodDistanceMedium exRocks = 50
   \<and> lodLevel (instances (rocks_chunks (updateLODLevels (mkVec3 (-14) 0 0) exRocks) ! 1) ! 0) = 1"
proof -
  let ?cam = "mkVec3 (-14) 0 0"
  let ?new = "instances (rocks_chunks (updateLODLevels ?cam exRocks) ! 1) ! 0"
  have h1: "1 < length (rocks_chunks exRocks)" by (simp add: exRocks_eq)
  have h2: "0 < length (instances (rocks_chunks exRocks ! 1))" by (simp add: exRocks_eq)
  have old: "instances (rocks_chunks exRocks ! 1) ! 0 = exRock 16 0 1" by (simp add: exRocks_eq)
  have thr: "lodDistanceHigh exRocks = 20" "lodDistanceMedium exRocks = 50"
    by (simp_all add: exRocks_eq)
  have dsq: "floatDistSq (position (exRock 16 0 1)) ?cam = 900" by code_simp
  have sq: "sqrt 900 = 30" by (rule real_sqrt_unique) simp_all
  have r: "rnd32 30 = 30" by code_simp
  have d: "fsqrt (floatDistSq (position (exRock 16 0 1)) ?cam) = 30"
    by (simp only: dsq fsqrt_def sq r)
  note main = C7_lod_thresholds [OF h1 h2, where cameraPos = ?cam, unfolded Let_def old d thr]
  from main have a: "position ?new = position (exRock 16 0 1)"
    and b: "distanceToCamera ?new = 30"
    and c: "(lodLevel ?new = 1) = (20 \<le> distanceToCamera ?new \<and> distanceToCamera ?new < 50)"
    by blast+
  from c b have l: "lodLevel ?new = 1" by simp
  from a have a': "position ?new = mkVec3 16 0 0" by (simp add: exRock_def)
  from h1 h2 old a' b thr l show ?thesis by blast
qed

section \<open>Chunks, buckets and the invariants\<close>

lemma shape3_nth: "shape3 n v \<Longrightarrow> t < n \<Longrightarrow> length (v ! t) = 3"
  by (simp add: shape3_def)

lemma push2_shape: "shape3 n v \<Longrightarrow> shape3 n (push2 v t l a)"
  unfolding shape3_def push2_def
  by (cases "t < length v") (auto simp: nth_list_update)

lemma push2_nth:
  "shape3 n v \<Longrightarrow> t < n \<Longrightarrow> l < 3 \<Longrightarrow> t' < n \<Longrightarrow> l' < 3 \<Longrightarrow>
   push2 v t l a ! t' ! l' = (if t' = t \<and> l' = l then v ! t ! l @ [a] else v ! t' ! l')"
  by (auto simp: push2_def shape3_def nth_list_update)

lemma pushVisibleRock_shape: "shape3 n v \<Longrightarrow> shape3 n (pushVisibleRock n inst v)"
  by (simp add: pushVisibleRock_def push2_shape)

lemma pushVisibleRock_nth:
  assumes "shape3 n v" "t < n" "l < 3"
  shows "pushVisibleRock n inst v ! t ! l = v ! t ! l @ (if rockMatch t l inst then [inst] else [])"
proof (cases "0 \<le> typeIndex inst \<and> typeIndex inst < int n \<and> 0 \<le> lodLevel inst \<and> lodLevel inst < 3")
  case True
  then have a: "nat (typeIndex inst) < n" "nat (lodLevel inst) < 3" by auto
  have b: "(t = nat (typeIndex inst) \<and> l = nat (lodLevel inst)) = rockMatch t l inst"
    using True by (auto simp: rockMatch_def)
  show ?thesis
    using True b push2_nth [OF assms(1) a assms(2,3), of inst]
    by (auto simp: pushVisibleRock_def)
next
  case False
  then have "\<not> rockMatch t l inst" using assms by (auto simp: rockMatch_def)
  with False show ?thesis by (auto simp: pushVisibleRock_def)
qed

lemma fold_pushVisibleRock_shape:
  "shape3 n v \<Longrightarrow> shape3 n (fold (pushVisibleRock n) insts v)"
  by (induction insts arbitrary: v) (simp_all add: pushVisibleRock_shape)

lemma fold_pushVisibleRock_nth:
  "shape3 n v \<Longrightarrow> t < n \<Longrightarrow> l < 3 \<Longrightarrow>
   fold (pushVisibleRock n) insts v ! t ! l = v ! t ! l @ filter (rockMatch t l) insts"
  by (induction insts arbitrary: v) (simp_all add: pushVisibleRock_shape pushVisibleRock_nth)

lemma cullFold_shape: "shape3 n v \<Longrightarrow> shape3 n (cullFold n P chunks v)"
  unfolding cullFold_def
  by (induction chunks arbitrary: v) (simp_all add: fold_pushVisibleRock_shape)

lemma cullFold_nth:
  "shape3 n v \<Longrightarrow> t < n \<Longrightarrow> l < 3 \<Longrightarrow>
   cullFold n P chunks v ! t ! l =
     v ! t ! l @ concat (map (\<lambda>c. if P c then filter (rockMatch t l) (instances c) else []) chunks)"
  unfolding cullFold_def
  by (induction chunks arbitrary: v) (simp_all add: fold_pushVisibleRock_shape fold_pushVisibleRock_nth)

lemma totalOverLODs_eq: "totalOverLODs b t = length (b ! t ! 0) + length (b ! t ! 1) + length (b ! t ! 2)"
  by (simp add: totalOverLODs_def upt_rec numeral_3_eq_3 numeral_2_eq_2)

lemma chunkInsts_update:
  assumes "i < length cs"
  shows "filter P (chunkInsts (cs[i := (cs ! i)\<lparr> instances := instances (cs ! i) @ [a] \<rparr>])) =
         filter P (chunkInsts (take i cs)) @ filter P (instances (cs ! i)) @ filter P [a]
           @ filter P (chunkInsts (drop (Suc i) cs))"
  using assms by (simp add: chunkInsts_def upd_conv_take_nth_drop)

lemma chunkInsts_split:
  assumes "i < length cs"
  shows "filter P (chunkInsts cs) =
         filter P (chunkInsts (take i cs)) @ filter P (instances (cs ! i))
           @ filter P (chunkInsts (drop (Suc i) cs))"
proof -
  have "cs = take i cs @ cs ! i # drop (Suc i) cs"
    using assms by (rule id_take_nth_drop)
  then have "chunkInsts cs = chunkInsts (take i cs @ cs ! i # drop (Suc i) cs)" by simp
  then show ?thesis by (simp add: chunkInsts_def)
qed

lemma assignToChunks_count:
  "assignToChunks f insts cs = Some cs' \<Longrightarrow>
   length (filter P (chunkInsts cs')) = length (filter P (chunkInsts cs)) + length (filter P insts)"
proof (induction insts arbitrary: cs)
  case Nil
  then show ?case by simp
next
  case (Cons a insts)
  let ?i = "nat (f (position a))"
  from Cons.prems have ok: "0 \<le> f (position a)" "f (position a) < int (length cs)"
    by (auto simp: Let_def split: if_splits)
  then have i: "?i < length cs" by auto
  from Cons.prems ok have
    "assignToChunks f insts (cs[?i := (cs ! ?i)\<lparr> instances := instances (cs ! ?i) @ [a] \<rparr>]) = Some cs'"
    by (simp add: Let_def)
  from Cons.IH [OF this] show ?case
    by (simp add: chunkInsts_update [OF i] chunkInsts_split [OF i, of P])
qed

lemma assignToChunks_set:
  "assignToChunks f insts cs = Some cs' \<Longrightarrow>
   set (chunkInsts cs') = set (chunkInsts cs) \<union> set insts"
proof (induction insts arbitrary: cs)
  case Nil
  then show ?case by simp
next
  case (Cons a insts)
  let ?i = "nat (f (position a))"
  from Cons.prems have ok: "0 \<le> f (position a)" "f (position a) < int (length cs)"
    by (auto simp: Let_def split: if_splits)
  then have i: "?i < length cs" by auto
  from Cons.prems ok have
    "assignToChunks f insts (cs[?i := (cs ! ?i)\<lparr> instances := instances (cs ! ?i) @ [a] \<rparr>]) = Some cs'"
    by (simp add: Let_def)
  from Cons.IH [OF this] have
    "set (chunkInsts cs') =
       set (chunkInsts (cs[?i := (cs ! ?i)\<lparr> instances := instances (cs ! ?i) @ [a] \<rparr>])) \<union> set insts" .
  moreover have "set (chunkInsts (cs[?i := (cs ! ?i)\<lparr> instances := instances (cs ! ?i) @ [a] \<rparr>]))
      = set (chunkInsts cs) \<union> {a}"
    using chunkInsts_update [OF i, of "\<lambda>_. True" a] chunkInsts_split [OF i, of "\<lambda>_. True"]
    by auto
  ultimately show ?case by auto
qed

lemma centerPos_update_instances:
  "map centerPos (cs[i := (cs ! i)\<lparr> instances := x \<rparr>]) = map centerPos cs"
  by (cases "i < length cs") (auto simp: list_eq_iff_nth_eq nth_list_update)

lemma assignToChunks_centers:
  "assignToChunks f insts cs = Some cs' \<Longrightarrow> map centerPos cs' = map centerPos cs"
proof (induction insts arbitrary: cs)
  case Nil
  then show ?case by simp
next
  case (Cons a insts)
  let ?i = "nat (f (position a))"
  from Cons.prems have ok: "0 \<le> f (position a)" "f (position a) < int (length cs)"
    by (auto simp: Let_def split: if_splits)
  from Cons.prems ok have
    "assignToChunks f insts (cs[?i := (cs ! ?i)\<lparr> instances := instances (cs ! ?i) @ [a] \<rparr>]) = Some cs'"
    by (simp add: Let_def)
  from Cons.IH [OF this] show ?case
    by (simp only: centerPos_update_instances)
qed

lemma chunkInsts_emptyChunks: "chunkInsts (emptyChunks hx hz cs nx nz) = []"
  by (simp add: chunkInsts_def emptyChunks_def)

lemma organizeIntoChunks_cases:
  assumes "organizeIntoChunks sx sz cs insts = Some chunks"
  obtains "insts = []" "chunks = []"
  | f hx hz nx nz where "assignToChunks f insts (emptyChunks hx hz cs nx nz) = Some chunks"
proof (cases "\<lceil>sx / cs\<rceil> \<le> 0 \<or> \<lceil>sz / cs\<rceil> \<le> 0")
  case True
  with assms have "insts = []" "chunks = []"
    by (simp_all add: organizeIntoChunks_def Let_def split: if_splits)
  then show ?thesis by (rule that(1))
next
  case False
  with assms have
    "assignToChunks (chunkIndex (sx * 0.5) (sz * 0.5) cs \<lceil>sx / cs\<rceil> \<lceil>sz / cs\<rceil>) insts
       (emptyChunks (sx * 0.5) (sz * 0.5) cs \<lceil>sx / cs\<rceil> \<lceil>sz / cs\<rceil>) = Some chunks"
    by (simp add: organizeIntoChunks_def Let_def split: if_splits)
  then show ?thesis by (rule that(2))
qed

lemma organizeIntoChunks_count:
  assumes "organizeIntoChunks sx sz cs insts = Some chunks"
  shows "length (filter P (chunkInsts chunks)) = length (filter P insts)"
  using assms
proof (cases rule: organizeIntoChunks_cases)
  case 1
  then show ?thesis by (simp add: chunkInsts_def)
next
  case (2 f hx hz nx nz)
  from assignToChunks_count [OF this, of P] show ?thesis
    by (simp add: chunkInsts_emptyChunks)
qed

lemma organizeIntoChunks_set:
  assumes "organizeIntoChunks sx sz cs insts = Some chunks"
  shows "set (chunkInsts chunks) = set insts"
  using assms
proof (cases rule: organizeIntoChunks_cases)
  case 1
  then show ?thesis by (simp add: chunkInsts_def)
next
  case (2 f hx hz nx nz)
  from assignToChunks_set [OF this] show ?thesis
    by (simp add: chunkInsts_emptyChunks)
qed

lemma bucketInsts_nth:
  "shape3 n b \<Longrightarrow> (a \<in> bucketInsts b) = (\<exists>t<n. \<exists>l<3. a \<in> set (b ! t ! l))"
proof
  assume "a \<in> bucketInsts b"
  then obtain row bucket where r: "row \<in> set b" "bucket \<in> set row" "a \<in> set bucket"
    by (auto simp: bucketInsts_def)
  assume sh: "shape3 n b"
  from r(1) obtain t where t: "t < length b" "row = b ! t" by (auto simp: in_set_conv_nth)
  with sh have len: "t < n" "length row = 3" by (auto simp: shape3_def)
  from r(2) obtain l where l: "l < length row" "bucket = row ! l" by (auto simp: in_set_conv_nth)
  from t l len r(3) show "\<exists>t<n. \<exists>l<3. a \<in> set (b ! t ! l)" by auto
next
  assume sh: "shape3 n b"
  assume "\<exists>t<n. \<exists>l<3. a \<in> set (b ! t ! l)"
  then obtain t l where tl: "t < n" "l < 3" "a \<in> set (b ! t ! l)" by blast
  from sh tl have "b ! t \<in> set b" "b ! t ! l \<in> set (b ! t)" by (auto simp: shape3_def)
  with tl(3) show "a \<in> bucketInsts b" unfolding bucketInsts_def by blast
qed

lemma push2_totalOverLODs:
  assumes "shape3 n b" "t0 < n" "l0 < 3" "t < n"
  shows "totalOverLODs (push2 b t0 l0 a) t = totalOverLODs b t + (if t = t0 then 1 else 0)"
proof -
  have l0: "l0 = 0 \<or> l0 = 1 \<or> l0 = 2" using assms(3) by auto
  have "\<And>l. l < 3 \<Longrightarrow> push2 b t0 l0 a ! t ! l =
      (if t = t0 \<and> l = l0 then b ! t0 ! l0 @ [a] else b ! t ! l)"
    using push2_nth [OF assms(1,2,3) assms(4)] by simp
  then show ?thesis using l0 by (auto simp: totalOverLODs_eq)
qed

lemma separateRocks_shape:
  "separateRocks n insts b = Some b' \<Longrightarrow> shape3 n b \<Longrightarrow> shape3 n b'"
  by (induction n insts b rule: separateRocks.induct)
     (auto simp: push2_shape split: if_splits)

lemma separateRocks_totalOverLODs:
  "separateRocks n insts b = Some b' \<Longrightarrow> shape3 n b \<Longrightarrow> t < n \<Longrightarrow>
   totalOverLODs b' t = totalOverLODs b t + typeCount t insts"
proof (induction n insts b rule: separateRocks.induct)
  case (1 n byType)
  then show ?case by (simp add: typeCount_def)
next
  case (2 n inst rest byType)
  show ?case
  proof (cases "0 \<le> typeIndex inst \<and> typeIndex inst < int n")
    case True
    with "2.prems"(1) have lod: "0 \<le> lodLevel inst" "lodLevel inst < 3"
      by (auto split: if_splits)
    let ?b = "push2 byType (nat (typeIndex inst)) (nat (lodLevel inst)) inst"
    from True lod "2.prems"(1) have rest: "separateRocks n rest ?b = Some b'" by simp
    have idx: "nat (typeIndex inst) < n" "nat (lodLevel inst) < 3" using True lod by auto
    have "totalOverLODs b' t = totalOverLODs ?b t + typeCount t rest"
      using "2.IH"(1) [OF True _ rest push2_shape [OF "2.prems"(2)] "2.prems"(3)] lod by simp
    also have "totalOverLODs ?b t = totalOverLODs byType t + (if t = nat (typeIndex inst) then 1 else 0)"
      by (rule push2_totalOverLODs [OF "2.prems"(2) idx "2.prems"(3)])
    finally show ?thesis using True by (auto simp: typeCount_def)
  next
    case False
    with "2.prems"(1) have rest: "separateRocks n rest byType = Some b'" by simp
    have "typeIndex inst \<noteq> int t" using False "2.prems"(3) by auto
    with "2.IH"(2) [OF False rest "2.prems"(2,3)] show ?thesis
      by (simp add: typeCount_def)
  qed
qed

lemma separateRocks_subset:
  "separateRocks n insts b = Some b' \<Longrightarrow> shape3 n b \<Longrightarrow>
   bucketInsts b' \<subseteq> bucketInsts b \<union> set insts"
proof (induction n insts b rule: separateRocks.induct)
  case (1 n byType)
  then show ?case by simp
next
  case (2 n inst rest byType)
  show ?case
  proof (cases "0 \<le> typeIndex inst \<and> typeIndex inst < int n")
    case True
    with "2.prems"(1) have lod: "0 \<le> lodLevel inst" "lodLevel inst < 3"
      by (auto split: if_splits)
    let ?b = "push2 byType (nat (typeIndex inst)) (nat (lodLevel inst)) inst"
    from True lod "2.prems"(1) have rest: "separateRocks n rest ?b = Some b'" by simp
    have idx: "nat (typeIndex inst) < n" "nat (lodLevel inst) < 3" using True lod by auto
    have sh: "shape3 n ?b" by (rule push2_shape [OF "2.prems"(2)])
    have "bucketInsts b' \<subseteq> bucketInsts ?b \<union> set rest"
      using "2.IH"(1) [OF True _ rest sh] lod by simp
    moreover have "bucketInsts ?b \<subseteq> bucketInsts byType \<union> {inst}"
    proof
      fix a assume "a \<in> bucketInsts ?b"
      then obtain t l where tl: "t < n" "l < 3" "a \<in> set (?b ! t ! l)"
        using bucketInsts_nth [OF sh] by blast
      from tl(3) push2_nth [OF "2.prems"(2) idx tl(1,2), of inst]
      have "a \<in> set (byType ! t ! l) \<or> a = inst" by (auto split: if_splits)
      with tl(1,2) show "a \<in> bucketInsts byType \<union> {inst}"
        using bucketInsts_nth [OF "2.prems"(2)] by blast
    qed
    ultimately show ?thesis by auto
  next
    case False
    with "2.prems"(1) have rest: "separateRocks n rest byType = Some b'" by simp
    from "2.IH"(2) [OF False rest "2.prems"(2)] show ?thesis by auto
  qed
qed

lemma shape3_replicate: "shape3 n (replicate n (replicate 3 x))"
  by (simp add: shape3_def)

lemma bucketInsts_replicate: "bucketInsts (replicate n (replicate m [])) = {}"
  by (auto simp: bucketInsts_def)

lemma totalOverLODs_replicate: "t < n \<Longrightarrow> totalOverLODs (replicate n (replicate 3 [])) t = 0"
  by (simp add: totalOverLODs_eq)

lemma resize_Nil: "resize n d [] = replicate n d"
  by (simp add: resize_def)

lemma clampTypeIndex_range:
  assumes "0 < n"
  shows "0 \<le> clampTypeIndex n i \<and> clampTypeIndex n i < n"
proof -
  have "\<bar>i\<bar> mod \<bar>n\<bar> < n" using assms by simp
  moreover have "sgn i * (\<bar>i\<bar> mod \<bar>n\<bar>) \<le> \<bar>i\<bar> mod \<bar>n\<bar>"
    using assms by (cases "i < 0"; cases "i = 0") (auto simp: sgn_if)
  ultimately have "i smod n < n" by (simp add: signed_modulo_int_def)
  with assms show ?thesis by (auto simp: clampTypeIndex_def Let_def)
qed

lemma Rocks_init_elim:
  assumes fresh: "rocks_fresh s0"
      and init: "Rocks_initWithInstances loaded allocOk nm nt pre vd cs s0 = Some s"
      and ne: "rockTypes s \<noteq> []"
  obtains chunks b where
    "organizeIntoChunks (rocks_terrainSizeX s0) (rocks_terrainSizeZ s0) cs
        (map (\<lambda>inst. inst\<lparr> typeIndex := clampTypeIndex (int (length (filter loaded [0..<min nm nt])))
                                   (typeIndex inst) \<rparr>) pre) = Some chunks"
    "separateRocks (length (filter loaded [0..<min nm nt]))
        (map (\<lambda>inst. inst\<lparr> typeIndex := clampTypeIndex (int (length (filter loaded [0..<min nm nt])))
                                   (typeIndex inst) \<rparr>) pre)
        (replicate (length (filter loaded [0..<min nm nt])) (replicate 3 [])) = Some b"
    "s = createInstanceBuffers allocOk
           (s0\<lparr> rocks_viewDistance := vd, rocks_chunkSize := cs,
                rockTypes := filter loaded [0..<min nm nt],
                rocks_allInstances :=
                  map (\<lambda>inst. inst\<lparr> typeIndex := clampTypeIndex (int (length (filter loaded [0..<min nm nt])))
                                   (typeIndex inst) \<rparr>) pre,
                rocks_chunks := chunks,
                instancesByTypeLOD := b,
                visibleInstancesByTypeLOD :=
                  replicate (length (filter loaded [0..<min nm nt])) (replicate 3 []) \<rparr>)"
proof -
  let ?tys = "filter loaded [0..<min nm nt]"
  let ?all = "map (\<lambda>inst. inst\<lparr> typeIndex := clampTypeIndex (int (length ?tys)) (typeIndex inst) \<rparr>) pre"
  from fresh have f: "rockTypes s0 = []" "instancesByTypeLOD s0 = []"
      "visibleInstancesByTypeLOD s0 = []" "instanceBuffersByType s0 = []"
    by (simp_all add: rocks_fresh_def)
  have tys: "?tys \<noteq> []"
  proof
    assume "?tys = []"
    with init f have "rockTypes s = []"
      by (auto simp: Rocks_initWithInstances_def loadRockTypesWithAutoLOD_def Let_def)
    with ne show False by simp
  qed
  from init tys f obtain s4 where
    s4: "Rocks_organizeIntoChunks
           (s0\<lparr> rocks_viewDistance := vd, rocks_chunkSize := cs, rockTypes := ?tys,
                rocks_allInstances := ?all \<rparr>) = Some s4"
    and fin: "Rocks_finishInit allocOk s4 = Some s"
    by (auto simp: Rocks_initWithInstances_def loadRockTypesWithAutoLOD_def Let_def
             split: option.splits)
  from s4 obtain chunks where
    ch: "organizeIntoChunks (rocks_terrainSizeX s0) (rocks_terrainSizeZ s0) cs ?all = Some chunks"
    and s4_eq: "s4 = s0\<lparr> rocks_viewDistance := vd, rocks_chunkSize := cs, rockTypes := ?tys,
                rocks_allInstances := ?all, rocks_chunks := chunks \<rparr>"
    by (auto simp: Rocks_organizeIntoChunks_def)
  from fin obtain s5 where s5: "separateInstancesByTypeAndLOD s4 = Some s5"
    and s_eq: "s = createInstanceBuffers allocOk s5"
    by (auto simp: Rocks_finishInit_def)
  from s5 s4_eq f obtain b where
    b: "separateRocks (length ?tys) ?all (replicate (length ?tys) (replicate 3 [])) = Some b"
    and s5_eq: "s5 = s4\<lparr> instancesByTypeLOD := b,
                  visibleInstancesByTypeLOD := replicate (length ?tys) (replicate 3 []) \<rparr>"
    by (auto simp: separateInstancesByTypeAndLOD_def Let_def resize_Nil)
  show ?thesis
    by (rule that [OF ch b]) (simp add: s_eq s5_eq s4_eq)
qed

lemma createInstanceBuffers_fields:
  "rockTypes (createInstanceBuffers allocOk s) = rockTypes s"
  "rocks_chunks (createInstanceBuffers allocOk s) = rocks_chunks s"
  "rocks_allInstances (createInstanceBuffers allocOk s) = rocks_allInstances s"
  "instancesByTypeLOD (createInstanceBuffers allocOk s) = instancesByTypeLOD s"
  "visibleInstancesByTypeLOD (createInstanceBuffers allocOk s) = visibleInstancesByTypeLOD s"
  by (simp_all add: createInstanceBuffers_def Let_def)

lemma createInstanceBuffers_nth:
  assumes "instanceBuffersByType s = []" "t < length (rockTypes s)" "l < 3"
      and "instanceBuffersByType (createInstanceBuffers allocOk s) ! t ! l = Some sz"
  shows "sz = word_of_nat (totalOverLODs (instancesByTypeLOD s) t * sizeof_RockInstanceGPU)"
proof -
  have l: "[0..<3] ! l = l" using assms(3) by simp
  show ?thesis
    using assms l
    by (auto simp: createInstanceBuffers_def Let_def resize_Nil totalOverLODs_def split: if_splits)
qed

lemma Rocks_init_ok:
  assumes fresh: "rocks_fresh s0"
      and init: "Rocks_initWithInstances loaded allocOk nm nt pre vd cs s0 = Some s"
  shows "rocks_ok s"
proof (cases "rockTypes s = []")
  case True
  have tys: "filter loaded [0..<min nm nt] = []"
  proof (rule ccontr)
    assume "filter loaded [0..<min nm nt] \<noteq> []"
    with init fresh have "rockTypes s \<noteq> []"
      by (auto simp: Rocks_initWithInstances_def loadRockTypesWithAutoLOD_def Let_def
            rocks_fresh_def Rocks_organizeIntoChunks_def Rocks_finishInit_def
            separateInstancesByTypeAndLOD_def createInstanceBuffers_def
            split: option.splits)
    with True show False by simp
  qed
  with init fresh have "s = s0\<lparr> rocks_viewDistance := vd, rocks_chunkSize := cs, rockTypes := [] \<rparr>"
    by (auto simp: Rocks_initWithInstances_def loadRockTypesWithAutoLOD_def Let_def rocks_fresh_def)
  then show ?thesis using fresh
    by (simp add: rocks_ok_def rocks_fresh_def shape3_def rocks_held_def bucketInsts_def chunkInsts_def)
next
  case False
  let ?tys = "filter loaded [0..<min nm nt]"
  let ?n = "length ?tys"
  let ?all = "map (\<lambda>inst. inst\<lparr> typeIndex := clampTypeIndex (int ?n) (typeIndex inst) \<rparr>) pre"
  from Rocks_init_elim [OF fresh init False] obtain chunks b where
    ch: "organizeIntoChunks (rocks_terrainSizeX s0) (rocks_terrainSizeZ s0) cs ?all = Some chunks"
    and b: "separateRocks ?n ?all (replicate ?n (replicate 3 [])) = Some b"
    and s: "s = createInstanceBuffers allocOk
           (s0\<lparr> rocks_viewDistance := vd, rocks_chunkSize := cs, rockTypes := ?tys,
                rocks_allInstances := ?all, rocks_chunks := chunks, instancesByTypeLOD := b,
                visibleInstancesByTypeLOD := replicate ?n (replicate 3 []) \<rparr>)"
    by blast
  from False s have npos: "0 < ?n" by (simp add: createInstanceBuffers_fields)
  have shb: "shape3 ?n b" by (rule separateRocks_shape [OF b shape3_replicate])
  have tot: "\<forall>t<?n. totalOverLODs b t = typeCount t (chunkInsts chunks)"
  proof (intro allI impI)
    fix t assume t: "t < ?n"
    have "totalOverLODs b t = typeCount t ?all"
      using separateRocks_totalOverLODs [OF b shape3_replicate t] t by (simp add: totalOverLODs_replicate)
    also have "\<dots> = typeCount t (chunkInsts chunks)"
      unfolding typeCount_def by (rule organizeIntoChunks_count [OF ch, symmetric])
    finally show "totalOverLODs b t = typeCount t (chunkInsts chunks)" .
  qed
  have buf: "\<forall>t<?n. \<forall>l<3. \<forall>sz. instanceBuffersByType s ! t ! l = Some sz \<longrightarrow>
             sz = word_of_nat (totalOverLODs b t * sizeof_RockInstanceGPU)"
  proof (intro allI impI)
    fix t l sz assume "t < ?n" "l < 3" "instanceBuffersByType s ! t ! l = Some sz"
    with fresh show "sz = word_of_nat (totalOverLODs b t * sizeof_RockInstanceGPU)"
      unfolding s
      by (auto dest!: createInstanceBuffers_nth [rotated 3] simp: rocks_fresh_def)
  qed
  have allr: "\<forall>inst \<in> set ?all. 0 \<le> typeIndex inst \<and> typeIndex inst < int ?n"
    using clampTypeIndex_range [of "int ?n"] npos by auto
  have held: "rocks_held s \<subseteq> set ?all"
    using separateRocks_subset [OF b shape3_replicate] organizeIntoChunks_set [OF ch]
    by (auto simp: rocks_held_def s createInstanceBuffers_fields bucketInsts_replicate)
  show ?thesis
    unfolding rocks_ok_def Let_def
    using shb tot buf allr held
    by (auto simp: s createInstanceBuffers_fields shape3_replicate)
qed

lemma rocks_okD:
  assumes "rocks_ok s"
  shows "shape3 (length (rockTypes s)) (visibleInstancesByTypeLOD s)"
    and "shape3 (length (rockTypes s)) (instancesByTypeLOD s)"
    and "\<And>t. t < length (rockTypes s) \<Longrightarrow>
           totalOverLODs (instancesByTypeLOD s) t = typeCount t (chunkInsts (rocks_chunks s))"
    and "\<And>t l sz. t < length (rockTypes s) \<Longrightarrow> l < 3 \<Longrightarrow>
           instanceBuffersByType s ! t ! l = Some sz \<Longrightarrow>
           sz = word_of_nat (totalOverLODs (instancesByTypeLOD s) t * sizeof_RockInstanceGPU)"
    and "\<And>inst. inst \<in> rocks_held s \<Longrightarrow>
           0 \<le> typeIndex inst \<and> typeIndex inst < int (length (rockTypes s))"
  using assms unfolding rocks_ok_def Let_def by blast+

lemma rocks_okI:
  assumes "shape3 (length (rockTypes s)) (visibleInstancesByTypeLOD s)"
    and "shape3 (length (rockTypes s)) (instancesByTypeLOD s)"
    and "\<And>t. t < length (rockTypes s) \<Longrightarrow>
           totalOverLODs (instancesByTypeLOD s) t = typeCount t (chunkInsts (rocks_chunks s))"
    and "\<And>t l sz. t < length (rockTypes s) \<Longrightarrow> l < 3 \<Longrightarrow>
           instanceBuffersByType s ! t ! l = Some sz \<Longrightarrow>
           sz = word_of_nat (totalOverLODs (instancesByTypeLOD s) t * sizeof_RockInstanceGPU)"
    and "\<And>inst. inst \<in> rocks_held s \<Longrightarrow>
           0 \<le> typeIndex inst \<and> typeIndex inst < int (length (rockTypes s))"
  shows "rocks_ok s"
  using assms unfolding rocks_ok_def Let_def by blast

lemma rocks_ok_cong:
  assumes "rockTypes s' = rockTypes s"
      and "visibleInstancesByTypeLOD s' = visibleInstancesByTypeLOD s"
      and "instancesByTypeLOD s' = instancesByTypeLOD s"
      and "instanceBuffersByType s' = instanceBuffersByType s"
      and "rocks_chunks s' = rocks_chunks s"
      and "rocks_allInstances s' = rocks_allInstances s"
  shows "rocks_ok s' = rocks_ok s"
  by (simp only: rocks_ok_def rocks_held_def assms)

lemma cleared_shape: "shape3 n v \<Longrightarrow> shape3 n (map (map (\<lambda>lodList. [])) v)"
  by (simp add: shape3_def)

lemma cleared_nth: "shape3 n v \<Longrightarrow> t < n \<Longrightarrow> l < 3 \<Longrightarrow> map (map (\<lambda>lodList. [])) v ! t ! l = []"
  by (simp add: shape3_def)

lemma Rocks_cull_fields:
  "rockTypes (Rocks_cull cam s) = rockTypes s"
  "rocks_allInstances (Rocks_cull cam s) = rocks_allInstances s"
  "instancesByTypeLOD (Rocks_cull cam s) = instancesByTypeLOD s"
  "instanceBuffersByType (Rocks_cull cam s) = instanceBuffersByType s"
  "rocks_viewDistance (Rocks_cull cam s) = rocks_viewDistance s"
  "rocks_chunkSize (Rocks_cull cam s) = rocks_chunkSize s"
  "rocks_chunks (Rocks_cull cam s) =
     map (\<lambda>chunk. chunk\<lparr> isVisible := chunkInRange
             (fmul (fadd (rocks_viewDistance s) (fmul (rocks_chunkSize s) 0.5)) (fadd (rocks_viewDistance s) (fmul (rocks_chunkSize s) 0.5)))
             cam chunk \<rparr>) (rocks_chunks s)"
  "visibleInstancesByTypeLOD (Rocks_cull cam s) =
     cullFold (length (rockTypes s))
       (chunkInRange (fmul (fadd (rocks_viewDistance s) (fmul (rocks_chunkSize s) 0.5)) (fadd (rocks_viewDistance s) (fmul (rocks_chunkSize s) 0.5))) cam)
       (rocks_chunks s) (map (map (\<lambda>lodList. [])) (visibleInstancesByTypeLOD s))"
  by (simp_all add: Rocks_cull_def Let_def cullFold_def)

lemma chunkInsts_isVisible:
  "chunkInsts (map (\<lambda>chunk. chunk\<lparr> isVisible := f chunk \<rparr>) cs) = chunkInsts cs"
  by (simp add: chunkInsts_def comp_def)

lemma Rocks_cull_visible_nth:
  assumes "shape3 (length (rockTypes s)) (visibleInstancesByTypeLOD s)"
      and "t < length (rockTypes s)" "l < 3"
  shows "visibleInstancesByTypeLOD (Rocks_cull cam s) ! t ! l =
     concat (map (\<lambda>c. if chunkInRange (fmul (fadd (rocks_viewDistance s) (fmul (rocks_chunkSize s) 0.5)) (fadd (rocks_viewDistance s) (fmul (rocks_chunkSize s) 0.5))) cam c
                       then filter (rockMatch t l) (instances c) else []) (rocks_chunks s))"
  using assms
  by (simp add: Rocks_cull_fields cullFold_nth cleared_shape cleared_nth)

lemma concat_filter_subset:
  "set (concat (map (\<lambda>c. if P c then filter Q (instances c) else []) cs)) \<subseteq> set (chunkInsts cs)"
  by (auto simp: chunkInsts_def split: if_splits)



lemma Rocks_cull_ok: "rocks_ok s \<Longrightarrow> rocks_ok (Rocks_cull cam s)"
proof -
  assume ok: "rocks_ok s"
  let ?n = "length (rockTypes s)"
  from ok have sh: "shape3 ?n (visibleInstancesByTypeLOD s)" by (simp add: rocks_ok_def Let_def)
  have sh': "shape3 ?n (visibleInstancesByTypeLOD (Rocks_cull cam s))"
    by (simp add: Rocks_cull_fields cullFold_shape cleared_shape sh)
  have "bucketInsts (visibleInstancesByTypeLOD (Rocks_cull cam s)) \<subseteq> set (chunkInsts (rocks_chunks s))"
  proof
    fix a assume "a \<in> bucketInsts (visibleInstancesByTypeLOD (Rocks_cull cam s))"
    then obtain t l where tl: "t < ?n" "l < 3"
        "a \<in> set (visibleInstancesByTypeLOD (Rocks_cull cam s) ! t ! l)"
      using bucketInsts_nth [OF sh'] by blast
    from tl(3) show "a \<in> set (chunkInsts (rocks_chunks s))"
      unfolding Rocks_cull_visible_nth [OF sh tl(1,2)]
      by (rule subsetD [OF concat_filter_subset])
  qed
  then have held: "rocks_held (Rocks_cull cam s) \<subseteq> rocks_held s"
    by (auto simp: rocks_held_def Rocks_cull_fields(1-6) Rocks_cull_fields(7) chunkInsts_isVisible)
  show ?thesis
  proof (rule rocks_okI)
    show "shape3 (length (rockTypes (Rocks_cull cam s))) (visibleInstancesByTypeLOD (Rocks_cull cam s))"
      using sh' by (simp add: Rocks_cull_fields(1))
    show "shape3 (length (rockTypes (Rocks_cull cam s))) (instancesByTypeLOD (Rocks_cull cam s))"
      using rocks_okD(2) [OF ok] by (simp add: Rocks_cull_fields(1,3))
    show "totalOverLODs (instancesByTypeLOD (Rocks_cull cam s)) t =
            typeCount t (chunkInsts (rocks_chunks (Rocks_cull cam s)))"
      if "t < length (rockTypes (Rocks_cull cam s))" for t
      using rocks_okD(3) [OF ok, of t] that
      by (simp add: Rocks_cull_fields(1,3) Rocks_cull_fields(7) chunkInsts_isVisible)
    show "sz = word_of_nat (totalOverLODs (instancesByTypeLOD (Rocks_cull cam s)) t * sizeof_RockInstanceGPU)"
      if "t < length (rockTypes (Rocks_cull cam s))" "l < 3"
         "instanceBuffersByType (Rocks_cull cam s) ! t ! l = Some sz" for t l sz
      using rocks_okD(4) [OF ok, of t l sz] that
      by (simp only: Rocks_cull_fields(1,3,4))
    show "0 \<le> typeIndex inst \<and> typeIndex inst < int (length (rockTypes (Rocks_cull cam s)))"
      if "inst \<in> rocks_held (Rocks_cull cam s)" for inst
      using rocks_okD(5) [OF ok, of inst] that held
      by (auto simp only: Rocks_cull_fields(1))
  qed
qed

lemma chunkInsts_map_instances:
  "chunkInsts (map (\<lambda>chunk. chunk\<lparr> instances := map f (instances chunk) \<rparr>) cs) = map f (chunkInsts cs)"
  by (simp add: chunkInsts_def map_concat comp_def)

lemma updateLOD_typeIndex: "typeIndex (updateLOD hi med cam inst) = typeIndex inst"
  by (simp add: updateLOD_def Let_def)

lemma updateLODLevels_ok: "rocks_ok s \<Longrightarrow> rocks_ok (updateLODLevels cam s)"
proof -
  assume ok: "rocks_ok s"
  let ?f = "updateLOD (lodDistanceHigh s) (lodDistanceMedium s) cam"
  have ci: "chunkInsts (rocks_chunks (updateLODLevels cam s)) = map ?f (chunkInsts (rocks_chunks s))"
    by (simp add: updateLODLevels_def chunkInsts_map_instances)
  have tc: "\<And>t. typeCount t (map ?f (chunkInsts (rocks_chunks s))) = typeCount t (chunkInsts (rocks_chunks s))"
    by (simp add: typeCount_def filter_map comp_def updateLOD_typeIndex)
  have other: "rockTypes (updateLODLevels cam s) = rockTypes s"
    "rocks_allInstances (updateLODLevels cam s) = rocks_allInstances s"
    "instancesByTypeLOD (updateLODLevels cam s) = instancesByTypeLOD s"
    "visibleInstancesByTypeLOD (updateLODLevels cam s) = visibleInstancesByTypeLOD s"
    "instanceBuffersByType (updateLODLevels cam s) = instanceBuffersByType s"
    by (simp_all add: updateLODLevels_def)
  have held: "\<forall>inst \<in> rocks_held (updateLODLevels cam s).
      \<exists>old \<in> rocks_held s. typeIndex inst = typeIndex old"
    by (auto simp: rocks_held_def other ci updateLOD_typeIndex)
  show ?thesis
  proof (rule rocks_okI)
    show "shape3 (length (rockTypes (updateLODLevels cam s))) (visibleInstancesByTypeLOD (updateLODLevels cam s))"
      using rocks_okD(1) [OF ok] by (simp only: other)
    show "shape3 (length (rockTypes (updateLODLevels cam s))) (instancesByTypeLOD (updateLODLevels cam s))"
      using rocks_okD(2) [OF ok] by (simp only: other)
    show "totalOverLODs (instancesByTypeLOD (updateLODLevels cam s)) t =
            typeCount t (chunkInsts (rocks_chunks (updateLODLevels cam s)))"
      if "t < length (rockTypes (updateLODLevels cam s))" for t
      using rocks_okD(3) [OF ok, of t] that by (simp only: other ci tc)
    show "sz = word_of_nat (totalOverLODs (instancesByTypeLOD (updateLODLevels cam s)) t * sizeof_RockInstanceGPU)"
      if "t < length (rockTypes (updateLODLevels cam s))" "l < 3"
         "instanceBuffersByType (updateLODLevels cam s) ! t ! l = Some sz" for t l sz
      using rocks_okD(4) [OF ok, of t l sz] that by (simp only: other)
    show "0 \<le> typeIndex inst \<and> typeIndex inst < int (length (rockTypes (updateLODLevels cam s)))"
      if "inst \<in> rocks_held (updateLODLevels cam s)" for inst
    proof -
      from held that obtain old where "old \<in> rocks_held s" "typeIndex inst = typeIndex old"
        by blast
      with rocks_okD(5) [OF ok, of old] show ?thesis by (simp only: other)
    qed
  qed
qed

lemma Rocks_step_ok: "rocks_ok s \<Longrightarrow> rocks_ok (Rocks_step op s)"
proof (cases op)
  case (RUpdate cam)
  assume "rocks_ok s"
  then show ?thesis by (simp add: RUpdate Rocks_update_def updateLODLevels_ok)
next
  case (RDraw mapOk cam)
  assume "rocks_ok s"
  then show ?thesis
    by (simp add: RDraw Rocks_draw_def Rocks_performChunkCulling_def Let_def Rocks_cull_ok)
next
  case (RSetLodDistances hi med)
  assume ok: "rocks_ok s"
  have "rocks_ok (s\<lparr> lodDistanceHigh := hi, lodDistanceMedium := med \<rparr>) = rocks_ok s"
    by (rule rocks_ok_cong) simp_all
  with ok show ?thesis by (simp add: RSetLodDistances)
qed

lemma Rocks_run_ok: "rocks_ok s \<Longrightarrow> rocks_ok (Rocks_run ops s)"
  unfolding Rocks_run_def
  by (induction ops arbitrary: s) (simp_all add: Rocks_step_ok)

lemma Rocks_run_rockTypes: "rockTypes (Rocks_run ops s) = rockTypes s"
  unfolding Rocks_run_def
proof (induction ops arbitrary: s)
  case Nil
  then show ?case by simp
next
  case (Cons op ops)
  have "rockTypes (Rocks_step op s) = rockTypes s"
    by (cases op)
       (simp_all add: Rocks_update_def updateLODLevels_def Rocks_draw_def
          Rocks_performChunkCulling_def Let_def Rocks_cull_fields)
  with Cons show ?case by simp
qed

lemma push2_lengths:
  "length (push2 b g t a) = length b" "map length (push2 b g t a) = map length b"
  by (cases "g < length b"; simp add: push2_def list_eq_iff_nth_eq nth_list_update)+

lemma pushRow_lengths: "map length (pushRow inst b) = map length b"
  by (simp add: pushRow_def push2_lengths)

lemma push2_nth_gen:
  "g < length b \<Longrightarrow> t < length (b ! g) \<Longrightarrow> g' < length b \<Longrightarrow> t' < length (b ! g') \<Longrightarrow>
   push2 b g t a ! g' ! t' = (if g' = g \<and> t' = t then b ! g ! t @ [a] else b ! g' ! t')"
  by (auto simp: push2_def nth_list_update)

lemma pushRow_nth:
  assumes "g < length b" "t < length (b ! g)"
  shows "pushRow inst b ! g ! t = b ! g ! t @ (if grassMatch g t inst then [inst] else [])"
proof (cases "0 \<le> groupIndex inst \<and> groupIndex inst < int (length b)
         \<and> 0 \<le> typeIndex inst \<and> typeIndex inst < int (length (b ! nat (groupIndex inst)))")
  case True
  then have a: "nat (groupIndex inst) < length b"
     "nat (typeIndex inst) < length (b ! nat (groupIndex inst))" by auto
  have m: "(g = nat (groupIndex inst) \<and> t = nat (typeIndex inst)) = grassMatch g t inst"
    using True by (auto simp: grassMatch_def)
  show ?thesis
    using True m push2_nth_gen [OF a assms, of inst] by (auto simp: pushRow_def)
next
  case False
  then have "\<not> grassMatch g t inst" using assms by (auto simp: grassMatch_def)
  with False show ?thesis by (auto simp: pushRow_def)
qed

lemma map_length_nth: "map length b' = map length b \<Longrightarrow> g < length b \<Longrightarrow>
    length b' = length b \<and> length (b' ! g) = length (b ! g)"
  by (metis length_map nth_map)

lemma fold_pushRow_lengths: "map length (fold pushRow insts b) = map length b"
  by (induction insts arbitrary: b) (simp_all add: pushRow_lengths)

lemma fold_pushRow_nth:
  "g < length b \<Longrightarrow> t < length (b ! g) \<Longrightarrow>
   fold pushRow insts b ! g ! t = b ! g ! t @ filter (grassMatch g t) insts"
proof (induction insts arbitrary: b)
  case Nil
  then show ?case by simp
next
  case (Cons a insts)
  have l: "length (pushRow a b) = length b \<and> length (pushRow a b ! g) = length (b ! g)"
    by (rule map_length_nth [OF pushRow_lengths Cons.prems(1)])
  with Cons.prems have "fold pushRow insts (pushRow a b) ! g ! t =
      pushRow a b ! g ! t @ filter (grassMatch g t) insts"
    by (intro Cons.IH) simp_all
  then show ?case using Cons.prems by (simp add: pushRow_nth)
qed

lemma cullRows_lengths: "map length (cullRows P chunks b) = map length b"
  unfolding cullRows_def
  by (induction chunks arbitrary: b) (simp_all add: fold_pushRow_lengths)

lemma cullRows_nth:
  "g < length b \<Longrightarrow> t < length (b ! g) \<Longrightarrow>
   cullRows P chunks b ! g ! t =
     b ! g ! t @ concat (map (\<lambda>c. if P c then filter (grassMatch g t) (instances c) else []) chunks)"
  unfolding cullRows_def
proof (induction chunks arbitrary: b)
  case Nil
  then show ?case by simp
next
  case (Cons c chunks)
  let ?b = "if P c then fold pushRow (instances c) b else b"
  have ml: "map length ?b = map length b" by (simp add: fold_pushRow_lengths)
  have l: "length ?b = length b \<and> length (?b ! g) = length (b ! g)"
    by (rule map_length_nth [OF ml Cons.prems(1)])
  with Cons.prems have
    "fold (\<lambda>chunk rows. if P chunk then fold pushRow (instances chunk) rows else rows) chunks ?b ! g ! t
       = ?b ! g ! t @ concat (map (\<lambda>c. if P c then filter (grassMatch g t) (instances c) else []) chunks)"
    by (intro Cons.IH) simp_all
  then show ?case using Cons.prems by (simp add: fold_pushRow_nth)
qed

text \<open>The two push functions of the grass field act as pushRow on one member and leave the others alone.\<close>

lemma map_update_same:
  "f x = f (gs ! g) \<Longrightarrow> map f (gs[g := x]) = map f gs"
  by (cases "g < length gs") (simp_all add: list_eq_iff_nth_eq nth_list_update)

lemma map_update_nth:
  "g < length gs \<Longrightarrow> map f (gs[g := x]) = (map f gs)[g := f x]"
  by (simp add: map_update)

lemma pushGrassByType_maps:
  "map instancesByType (pushGrassByType inst gs) = pushRow inst (map instancesByType gs)"
  "map types (pushGrassByType inst gs) = map types gs"
  "map visibleInstancesByType (pushGrassByType inst gs) = map visibleInstancesByType gs"
  "map instanceBuffers (pushGrassByType inst gs) = map instanceBuffers gs"
proof -
  show "map instancesByType (pushGrassByType inst gs) = pushRow inst (map instancesByType gs)"
  proof (cases "0 \<le> groupIndex inst \<and> groupIndex inst < int (length gs)")
    case True
    then have g: "nat (groupIndex inst) < length gs" by auto
    show ?thesis using True g
      by (simp add: pushGrassByType_def pushRow_def push2_def Let_def map_update)
  next
    case False
    then show ?thesis by (auto simp: pushGrassByType_def pushRow_def)
  qed
  show "map types (pushGrassByType inst gs) = map types gs"
    by (simp add: pushGrassByType_def Let_def map_update_same)
  show "map visibleInstancesByType (pushGrassByType inst gs) = map visibleInstancesByType gs"
    by (simp add: pushGrassByType_def Let_def map_update_same)
  show "map instanceBuffers (pushGrassByType inst gs) = map instanceBuffers gs"
    by (simp add: pushGrassByType_def Let_def map_update_same)
qed

lemma pushVisibleGrass_maps:
  "map visibleInstancesByType (pushVisibleGrass inst gs) = pushRow inst (map visibleInstancesByType gs)"
  "map types (pushVisibleGrass inst gs) = map types gs"
  "map instancesByType (pushVisibleGrass inst gs) = map instancesByType gs"
  "map instanceBuffers (pushVisibleGrass inst gs) = map instanceBuffers gs"
proof -
  show "map visibleInstancesByType (pushVisibleGrass inst gs) = pushRow inst (map visibleInstancesByType gs)"
  proof (cases "0 \<le> groupIndex inst \<and> groupIndex inst < int (length gs)")
    case True
    then have g: "nat (groupIndex inst) < length gs" by auto
    show ?thesis using True g
      by (simp add: pushVisibleGrass_def pushRow_def push2_def Let_def map_update)
  next
    case False
    then show ?thesis by (auto simp: pushVisibleGrass_def pushRow_def)
  qed
  show "map types (pushVisibleGrass inst gs) = map types gs"
    by (simp add: pushVisibleGrass_def Let_def map_update_same)
  show "map instancesByType (pushVisibleGrass inst gs) = map instancesByType gs"
    by (simp add: pushVisibleGrass_def Let_def map_update_same)
  show "map instanceBuffers (pushVisibleGrass inst gs) = map instanceBuffers gs"
    by (simp add: pushVisibleGrass_def Let_def map_update_same)
qed

lemma fold_pushGrassByType_maps:
  "map instancesByType (fold pushGrassByType insts gs) = fold pushRow insts (map instancesByType gs)"
  "map types (fold pushGrassByType insts gs) = map types gs"
  "map visibleInstancesByType (fold pushGrassByType insts gs) = map visibleInstancesByType gs"
  "map instanceBuffers (fold pushGrassByType insts gs) = map instanceBuffers gs"
  by (induction insts arbitrary: gs) (simp_all add: pushGrassByType_maps)

lemma fold_pushVisibleGrass_maps:
  "map visibleInstancesByType (fold pushVisibleGrass insts gs) = fold pushRow insts (map visibleInstancesByType gs)"
  "map types (fold pushVisibleGrass insts gs) = map types gs"
  "map instancesByType (fold pushVisibleGrass insts gs) = map instancesByType gs"
  "map instanceBuffers (fold pushVisibleGrass insts gs) = map instanceBuffers gs"
  by (induction insts arbitrary: gs) (simp_all add: pushVisibleGrass_maps)

lemma cull_step_maps:
  fixes P :: "GrassChunk \<Rightarrow> bool"
  shows "map visibleInstancesByType
           (fold (\<lambda>chunk gs. if P chunk then fold pushVisibleGrass (instances chunk) gs else gs) cs gs)
           = cullRows P cs (map visibleInstancesByType gs)
       \<and> map types
           (fold (\<lambda>chunk gs. if P chunk then fold pushVisibleGrass (instances chunk) gs else gs) cs gs)
           = map types gs
       \<and> map instancesByType
           (fold (\<lambda>chunk gs. if P chunk then fold pushVisibleGrass (instances chunk) gs else gs) cs gs)
           = map instancesByType gs
       \<and> map instanceBuffers
           (fold (\<lambda>chunk gs. if P chunk then fold pushVisibleGrass (instances chunk) gs else gs) cs gs)
           = map instanceBuffers gs"
  unfolding cullRows_def
  by (induction cs arbitrary: gs) (simp_all add: fold_pushVisibleGrass_maps)

lemma Grass_cull_maps:
  "map visibleInstancesByType (groups (Grass_cull cam s)) =
     cullRows (chunkInRange (fmul (fadd (grass_viewDistance s) (fmul (grass_chunkSize s) 0.5)) (fadd (grass_viewDistance s) (fmul (grass_chunkSize s) 0.5))) cam)
       (grass_chunks s) (map (map (\<lambda>list. [])) (map visibleInstancesByType (groups s)))"
  "map types (groups (Grass_cull cam s)) = map types (groups s)"
  "map instancesByType (groups (Grass_cull cam s)) = map instancesByType (groups s)"
  "map instanceBuffers (groups (Grass_cull cam s)) = map instanceBuffers (groups s)"
  by (simp_all add: Grass_cull_def Let_def cull_step_maps comp_def)

lemma grass_okD:
  assumes "grass_ok s"
  shows "\<And>g. g < length (groups s) \<Longrightarrow> types (groups s ! g) \<noteq> []"
    and "\<And>g. g < length (groups s) \<Longrightarrow>
           length (instancesByType (groups s ! g)) = length (types (groups s ! g))"
    and "\<And>g. g < length (groups s) \<Longrightarrow>
           length (visibleInstancesByType (groups s ! g)) = length (types (groups s ! g))"
    and "\<And>g t. g < length (groups s) \<Longrightarrow> t < length (types (groups s ! g)) \<Longrightarrow>
           length (instancesByType (groups s ! g) ! t) = pairCount g t (chunkInsts (grass_chunks s))"
    and "\<And>g t sz. g < length (groups s) \<Longrightarrow> t < length (types (groups s ! g)) \<Longrightarrow>
           instanceBuffers (groups s ! g) ! t = Some sz \<Longrightarrow>
           sz = word_of_nat ((if totalGroupInstances (groups s ! g) = 0 then 1000
                               else totalGroupInstances (groups s ! g)) * sizeof_GrassInstanceGPU)"
    and "\<And>inst. inst \<in> grass_held s \<Longrightarrow> grassIndexOk (groups s) inst"
  using assms unfolding grass_ok_def Let_def by blast+

lemma grass_okI:
  assumes "\<And>g. g < length (groups s) \<Longrightarrow> types (groups s ! g) \<noteq> []"
    and "\<And>g. g < length (groups s) \<Longrightarrow>
           length (instancesByType (groups s ! g)) = length (types (groups s ! g))"
    and "\<And>g. g < length (groups s) \<Longrightarrow>
           length (visibleInstancesByType (groups s ! g)) = length (types (groups s ! g))"
    and "\<And>g t. g < length (groups s) \<Longrightarrow> t < length (types (groups s ! g)) \<Longrightarrow>
           length (instancesByType (groups s ! g) ! t) = pairCount g t (chunkInsts (grass_chunks s))"
    and "\<And>g t sz. g < length (groups s) \<Longrightarrow> t < length (types (groups s ! g)) \<Longrightarrow>
           instanceBuffers (groups s ! g) ! t = Some sz \<Longrightarrow>
           sz = word_of_nat ((if totalGroupInstances (groups s ! g) = 0 then 1000
                               else totalGroupInstances (groups s ! g)) * sizeof_GrassInstanceGPU)"
    and "\<And>inst. inst \<in> grass_held s \<Longrightarrow> grassIndexOk (groups s) inst"
  shows "grass_ok s"
  using assms unfolding grass_ok_def Let_def by blast

lemma bucketInsts_nth_gen:
  "(a \<in> bucketInsts b) = (\<exists>g<length b. \<exists>t<length (b ! g). a \<in> set (b ! g ! t))"
proof
  assume "a \<in> bucketInsts b"
  then obtain row bucket where r: "row \<in> set b" "bucket \<in> set row" "a \<in> set bucket"
    by (auto simp: bucketInsts_def)
  from r(1) obtain g where g: "g < length b" "row = b ! g" by (auto simp: in_set_conv_nth)
  from r(2) obtain t where t: "t < length row" "bucket = row ! t" by (auto simp: in_set_conv_nth)
  from g t r(3) show "\<exists>g<length b. \<exists>t<length (b ! g). a \<in> set (b ! g ! t)" by auto
next
  assume "\<exists>g<length b. \<exists>t<length (b ! g). a \<in> set (b ! g ! t)"
  then obtain g t where gt: "g < length b" "t < length (b ! g)" "a \<in> set (b ! g ! t)" by blast
  then have "b ! g \<in> set b" "b ! g ! t \<in> set (b ! g)" by auto
  with gt(3) show "a \<in> bucketInsts b" unfolding bucketInsts_def by blast
qed

text \<open>Two group lists that agree on a member agree on it at every index.\<close>

lemma map_eq_nth: "map f xs = map f ys \<Longrightarrow> g < length xs \<Longrightarrow> f (xs ! g) = f (ys ! g)"
  by (metis length_map nth_map)

lemma map_eq_length: "map f xs = map h ys \<Longrightarrow> length xs = length ys"
  by (metis length_map)

lemma cullRows_subset:
  "bucketInsts (cullRows P chunks (map (map (\<lambda>list. ([]::GrassInstance list))) b))
     \<subseteq> set (chunkInsts chunks)"
proof
  fix a
  let ?c = "map (map (\<lambda>list. ([]::GrassInstance list))) b"
  assume "a \<in> bucketInsts (cullRows P chunks ?c)"
  then obtain g t where gt: "g < length (cullRows P chunks ?c)"
     "t < length (cullRows P chunks ?c ! g)" "a \<in> set (cullRows P chunks ?c ! g ! t)"
    unfolding bucketInsts_nth_gen by blast
  have ml: "map length (cullRows P chunks ?c) = map length ?c" by (rule cullRows_lengths)
  from gt(1) map_eq_length [OF ml] have g: "g < length ?c" by simp
  from map_eq_nth [OF ml gt(1)] gt(2) have t: "t < length (?c ! g)" by simp
  from g t have "?c ! g ! t = []" by simp
  with gt(3) cullRows_nth [OF g t, of P chunks] show "a \<in> set (chunkInsts chunks)"
    using concat_filter_subset [of P "grassMatch g t" chunks] by auto
qed


lemma Grass_cull_fields:
  "grass_allInstances (Grass_cull cam s) = grass_allInstances s"
  "grass_viewDistance (Grass_cull cam s) = grass_viewDistance s"
  "grass_chunkSize (Grass_cull cam s) = grass_chunkSize s"
  "grass_chunks (Grass_cull cam s) =
     map (\<lambda>chunk. chunk\<lparr> isVisible := chunkInRange
             (fmul (fadd (grass_viewDistance s) (fmul (grass_chunkSize s) 0.5)) (fadd (grass_viewDistance s) (fmul (grass_chunkSize s) 0.5)))
             cam chunk \<rparr>) (grass_chunks s)"
  by (simp_all add: Grass_cull_def Let_def)

lemma Grass_cull_length: "length (groups (Grass_cull cam s)) = length (groups s)"
  using map_eq_length [OF Grass_cull_maps(2)] .

lemma totalGroupInstances_cong:
  "types a = types b \<Longrightarrow> instancesByType a = instancesByType b \<Longrightarrow>
   totalGroupInstances a = totalGroupInstances b"
  by (simp add: totalGroupInstances_def)

lemma grassIndexOk_cong:
  "map types gs' = map types gs \<Longrightarrow> grassIndexOk gs' inst = grassIndexOk gs inst"
proof -
  assume m: "map types gs' = map types gs"
  have l: "length gs' = length gs" by (rule map_eq_length [OF m])
  show ?thesis
  proof (cases "0 \<le> groupIndex inst \<and> groupIndex inst < int (length gs)")
    case True
    then have "nat (groupIndex inst) < length gs'" using l by auto
    from map_eq_nth [OF m this] l show ?thesis by (simp add: grassIndexOk_def)
  next
    case False
    then show ?thesis using l by (auto simp: grassIndexOk_def)
  qed
qed

lemma Grass_cull_ok:
  assumes ok: "grass_ok s"
  shows "grass_ok (Grass_cull cam s)"
proof (rule grass_okI)
  let ?s = "Grass_cull cam s"
  note len = Grass_cull_length [of cam s]
  have ty: "\<And>g. g < length (groups s) \<Longrightarrow> types (groups ?s ! g) = types (groups s ! g)"
    using map_eq_nth [OF Grass_cull_maps(2)] len by simp
  have ib: "\<And>g. g < length (groups s) \<Longrightarrow> instancesByType (groups ?s ! g) = instancesByType (groups s ! g)"
    using map_eq_nth [OF Grass_cull_maps(3)] len by simp
  have bf: "\<And>g. g < length (groups s) \<Longrightarrow> instanceBuffers (groups ?s ! g) = instanceBuffers (groups s ! g)"
    using map_eq_nth [OF Grass_cull_maps(4)] len by simp
  have ci: "chunkInsts (grass_chunks ?s) = chunkInsts (grass_chunks s)"
    by (simp add: Grass_cull_fields chunkInsts_isVisible)
  show "types (groups ?s ! g) \<noteq> []" if "g < length (groups ?s)" for g
    using that grass_okD(1) [OF ok, of g] ty len by simp
  show "length (instancesByType (groups ?s ! g)) = length (types (groups ?s ! g))"
    if "g < length (groups ?s)" for g
    using that grass_okD(2) [OF ok, of g] ty ib len by simp
  show "length (visibleInstancesByType (groups ?s ! g)) = length (types (groups ?s ! g))"
    if "g < length (groups ?s)" for g
  proof -
    from that len have g: "g < length (groups s)" by simp
    have "map length (map visibleInstancesByType (groups ?s)) =
          map length (map (map (\<lambda>list. ([]::GrassInstance list))) (map visibleInstancesByType (groups s)))"
      unfolding Grass_cull_maps(1) by (rule cullRows_lengths)
    from map_eq_nth [OF this] that g
    have "length (visibleInstancesByType (groups ?s ! g)) = length (visibleInstancesByType (groups s ! g))"
      by simp
    with grass_okD(3) [OF ok g] ty [OF g] show ?thesis by simp
  qed
  show "length (instancesByType (groups ?s ! g) ! t) = pairCount g t (chunkInsts (grass_chunks ?s))"
    if "g < length (groups ?s)" "t < length (types (groups ?s ! g))" for g t
    using that grass_okD(4) [OF ok, of g t] ty ib len ci by simp
  show "sz = word_of_nat ((if totalGroupInstances (groups ?s ! g) = 0 then 1000
                               else totalGroupInstances (groups ?s ! g)) * sizeof_GrassInstanceGPU)"
    if "g < length (groups ?s)" "t < length (types (groups ?s ! g))"
       "instanceBuffers (groups ?s ! g) ! t = Some sz" for g t sz
  proof -
    from that len have g: "g < length (groups s)" by simp
    have "totalGroupInstances (groups ?s ! g) = totalGroupInstances (groups s ! g)"
      by (rule totalGroupInstances_cong) (simp_all add: ty g ib)
    with grass_okD(5) [OF ok g, of t sz] that ty [OF g] bf [OF g] show ?thesis by simp
  qed
  show "grassIndexOk (groups ?s) inst" if "inst \<in> grass_held ?s" for inst
  proof -
    have "bucketInsts (map visibleInstancesByType (groups ?s)) \<subseteq> set (chunkInsts (grass_chunks s))"
      unfolding Grass_cull_maps(1) by (rule cullRows_subset)
    with that have "inst \<in> grass_held s"
      by (auto simp: grass_held_def Grass_cull_fields(1) ci Grass_cull_maps(3))
    from grass_okD(6) [OF ok this] show ?thesis
      by (simp add: grassIndexOk_cong [OF Grass_cull_maps(2)])
  qed
qed

lemma grass_ok_cong:
  assumes "groups s' = groups s" "grass_chunks s' = grass_chunks s"
      and "grass_allInstances s' = grass_allInstances s"
  shows "grass_ok s' = grass_ok s"
  by (simp only: grass_ok_def grass_held_def assms)

lemma Grass_step_ok: "grass_ok s \<Longrightarrow> grass_ok (Grass_step op s)"
proof (cases op)
  case (GUpdate dt)
  assume ok: "grass_ok s"
  have "grass_ok (s\<lparr> windTime := windTime s + dt \<rparr>) = grass_ok s"
    by (rule grass_ok_cong) simp_all
  with ok show ?thesis by (simp add: GUpdate)
next
  case (GDraw mapOk cam)
  assume "grass_ok s"
  then show ?thesis
    by (simp add: GDraw Grass_draw_def Grass_performChunkCulling_def Let_def Grass_cull_ok)
qed

lemma Grass_run_ok: "grass_ok s \<Longrightarrow> grass_ok (Grass_run ops s)"
  unfolding Grass_run_def
  by (induction ops arbitrary: s) (simp_all add: Grass_step_ok)

lemma fixGrassIndices_ok:
  assumes ne: "gs \<noteq> []" and ty: "\<forall>gr \<in> set gs. types gr \<noteq> []"
  shows "grassIndexOk gs (fixGrassIndices gs inst)"
proof -
  let ?g = "clampTypeIndex (int (length gs)) (groupIndex inst)"
  from ne have "0 < int (length gs)" by simp
  from clampTypeIndex_range [OF this, of "groupIndex inst"]
  have g: "0 \<le> ?g" "?g < int (length gs)" by simp_all
  then have "gs ! nat ?g \<in> set gs" by simp
  with ty have "0 < int (length (types (gs ! nat ?g)))" by simp
  from clampTypeIndex_range [OF this, of "typeIndex inst"] g this
  show ?thesis by (simp add: grassIndexOk_def fixGrassIndices_def Let_def)
qed

lemma map_nth_upt: "map (\<lambda>g. f (xs ! g)) [0..<length xs] = map f xs"
  by (rule nth_equalityI) simp_all

lemma Grass_createInstanceBuffers_maps:
  "map types (groups (Grass_createInstanceBuffers allocOk s)) = map types (groups s)"
  "map instancesByType (groups (Grass_createInstanceBuffers allocOk s)) = map instancesByType (groups s)"
  "map visibleInstancesByType (groups (Grass_createInstanceBuffers allocOk s)) = map visibleInstancesByType (groups s)"
  "grass_chunks (Grass_createInstanceBuffers allocOk s) = grass_chunks s"
  "grass_allInstances (Grass_createInstanceBuffers allocOk s) = grass_allInstances s"
  by (simp_all add: Grass_createInstanceBuffers_def Let_def comp_def map_nth_upt)

lemma Grass_createInstanceBuffers_nth:
  assumes "g < length (groups s)" "t < length (types (groups s ! g))"
      and "instanceBuffers (groups (Grass_createInstanceBuffers allocOk s) ! g) ! t = Some sz"
  shows "sz = word_of_nat ((if totalGroupInstances (groups s ! g) = 0 then 1000
                            else totalGroupInstances (groups s ! g)) * sizeof_GrassInstanceGPU)"
  using assms
  by (auto simp: Grass_createInstanceBuffers_def Let_def totalGroupInstances_def split: if_splits)

lemma separate_maps:
  "map types (groups (separateInstancesByGroupAndType s)) = map types (groups s)"
  "map instancesByType (groups (separateInstancesByGroupAndType s)) =
     fold pushRow (grass_allInstances s)
       (map (\<lambda>gr. resize (length (types gr)) [] (instancesByType gr)) (groups s))"
  "map visibleInstancesByType (groups (separateInstancesByGroupAndType s)) =
     map (\<lambda>gr. resize (length (types gr)) [] (visibleInstancesByType gr)) (groups s)"
  "grass_chunks (separateInstancesByGroupAndType s) = grass_chunks s"
  "grass_allInstances (separateInstancesByGroupAndType s) = grass_allInstances s"
  by (simp_all add: separateInstancesByGroupAndType_def fold_pushGrassByType_maps comp_def)

lemma Grass_init_elim:
  assumes fresh: "grass_fresh s0"
      and init: "Grass_initWithInstances loaded allocOk configs pre vd cs s0 = Some s"
      and ne: "groups s \<noteq> []"
  obtains G2 chunks where
    "G2 \<noteq> []" "\<forall>gr \<in> set G2. types gr \<noteq> [] \<and> instancesByType gr = [] \<and> visibleInstancesByType gr = []"
    "organizeIntoChunks (grass_terrainSizeX s0) (grass_terrainSizeZ s0) cs
        (map (fixGrassIndices G2) pre) = Some chunks"
    "s = Grass_finishInit allocOk
           (s0\<lparr> grass_viewDistance := vd, grass_chunkSize := cs, groups := G2,
                grass_allInstances := map (fixGrassIndices G2) pre, grass_chunks := chunks \<rparr>)"
proof -
  let ?G2 = "filter (\<lambda>gr. types gr \<noteq> [])
            (map (\<lambda>g. \<lparr> types = map (Pair g) (filter (loaded g) [0..<configs ! g]),
                        instancesByType = [], visibleInstancesByType = [],
                        instanceBuffers = [] \<rparr>) [0..<length configs])"
  from fresh have f: "groups s0 = []" by (simp add: grass_fresh_def)
  have g2: "?G2 \<noteq> []"
  proof
    assume "?G2 = []"
    with init f have "groups s = []"
      by (auto simp: Grass_initWithInstances_def loadGrassGroups_def Let_def)
    with ne show False by simp
  qed
  have props: "\<forall>gr \<in> set ?G2. types gr \<noteq> [] \<and> instancesByType gr = [] \<and> visibleInstancesByType gr = []"
    by auto
  from init g2 f obtain s4 where
    s4: "Grass_organizeIntoChunks
           (s0\<lparr> grass_viewDistance := vd, grass_chunkSize := cs, groups := ?G2,
                grass_allInstances := map (fixGrassIndices ?G2) pre \<rparr>) = Some s4"
    and fin: "s = Grass_finishInit allocOk s4"
    by (auto simp: Grass_initWithInstances_def loadGrassGroups_def Let_def)
  from s4 obtain chunks where
    ch: "organizeIntoChunks (grass_terrainSizeX s0) (grass_terrainSizeZ s0) cs
           (map (fixGrassIndices ?G2) pre) = Some chunks"
    and s4_eq: "s4 = s0\<lparr> grass_viewDistance := vd, grass_chunkSize := cs, groups := ?G2,
                grass_allInstances := map (fixGrassIndices ?G2) pre, grass_chunks := chunks \<rparr>"
    by (auto simp: Grass_organizeIntoChunks_def)
  show ?thesis
    by (rule that [OF g2 props ch]) (simp add: fin s4_eq)
qed


lemma Grass_init_ok:
  assumes fresh: "grass_fresh s0"
      and init: "Grass_initWithInstances loaded allocOk configs pre vd cs s0 = Some s"
  shows "grass_ok s"
proof (cases "groups s = []")
  case True
  have "filter (\<lambda>gr. types gr \<noteq> [])
            (map (\<lambda>g. \<lparr> types = map (Pair g) (filter (loaded g) [0..<configs ! g]),
                        instancesByType = [], visibleInstancesByType = [],
                        instanceBuffers = [] \<rparr>) [0..<length configs]) = []"
  proof (rule ccontr)
    assume a: "filter (\<lambda>gr. types gr \<noteq> [])
            (map (\<lambda>g. \<lparr> types = map (Pair g) (filter (loaded g) [0..<configs ! g]),
                        instancesByType = [], visibleInstancesByType = [],
                        instanceBuffers = [] \<rparr>) [0..<length configs]) \<noteq> []"
    with init fresh obtain s4 where "s = Grass_finishInit allocOk s4" "groups s4 \<noteq> []"
      by (auto simp: Grass_initWithInstances_def loadGrassGroups_def Let_def grass_fresh_def
            Grass_organizeIntoChunks_def)
    then have "length (groups s) \<noteq> 0"
      using map_eq_length [OF Grass_createInstanceBuffers_maps(1)] map_eq_length [OF separate_maps(1)]
      by (simp add: Grass_finishInit_def)
    with True show False by simp
  qed
  with init fresh have "s = s0\<lparr> grass_viewDistance := vd, grass_chunkSize := cs, groups := [] \<rparr>"
    by (auto simp: Grass_initWithInstances_def loadGrassGroups_def Let_def grass_fresh_def)
  then show ?thesis using fresh
    by (simp add: grass_ok_def grass_fresh_def grass_held_def bucketInsts_def chunkInsts_def)
next
  case False
  from Grass_init_elim [OF fresh init False] obtain G2 chunks where
    g2: "G2 \<noteq> []"
    and props: "\<forall>gr \<in> set G2. types gr \<noteq> [] \<and> instancesByType gr = [] \<and> visibleInstancesByType gr = []"
    and ch: "organizeIntoChunks (grass_terrainSizeX s0) (grass_terrainSizeZ s0) cs
        (map (fixGrassIndices G2) pre) = Some chunks"
    and s: "s = Grass_finishInit allocOk
           (s0\<lparr> grass_viewDistance := vd, grass_chunkSize := cs, groups := G2,
                grass_allInstances := map (fixGrassIndices G2) pre, grass_chunks := chunks \<rparr>)"
    by blast
  let ?all = "map (fixGrassIndices G2) pre"
  let ?s4 = "s0\<lparr> grass_viewDistance := vd, grass_chunkSize := cs, groups := G2,
                grass_allInstances := ?all, grass_chunks := chunks \<rparr>"
  let ?s5 = "separateInstancesByGroupAndType ?s4"
  let ?empty = "map (\<lambda>gr. replicate (length (types gr)) ([]::GrassInstance list)) G2"
  have s_eq: "s = Grass_createInstanceBuffers allocOk ?s5" by (simp add: s Grass_finishInit_def)
  have rz: "map (\<lambda>gr. resize (length (types gr)) [] (instancesByType gr)) G2 = ?empty"
           "map (\<lambda>gr. resize (length (types gr)) [] (visibleInstancesByType gr)) G2 = ?empty"
    using props by (simp_all add: resize_Nil)
  have T: "map types (groups s) = map types G2"
    unfolding s_eq by (simp add: Grass_createInstanceBuffers_maps separate_maps)
  have B: "map instancesByType (groups s) = fold pushRow ?all ?empty"
    unfolding s_eq by (simp add: Grass_createInstanceBuffers_maps separate_maps rz)
  have V: "map visibleInstancesByType (groups s) = ?empty"
    unfolding s_eq by (simp add: Grass_createInstanceBuffers_maps separate_maps rz)
  have C: "grass_chunks s = chunks" "grass_allInstances s = ?all"
    unfolding s_eq by (simp_all add: Grass_createInstanceBuffers_maps separate_maps)
  have len: "length (groups s) = length G2" by (rule map_eq_length [OF T])
  have len5: "length (groups ?s5) = length G2"
    using map_eq_length [OF separate_maps(1), of ?s4] by simp
  have ty: "\<And>g. g < length G2 \<Longrightarrow> types (groups s ! g) = types (G2 ! g)"
    using map_eq_nth [OF T] len by simp
  have Blen: "map length (fold pushRow ?all ?empty) = map length ?empty"
    by (rule fold_pushRow_lengths)
  have allok: "\<forall>inst \<in> set ?all. grassIndexOk G2 inst"
    using fixGrassIndices_ok [OF g2] props by auto
  show ?thesis
  proof (rule grass_okI)
    show "types (groups s ! g) \<noteq> []" if "g < length (groups s)" for g
      using that props ty len by simp
    show "length (instancesByType (groups s ! g)) = length (types (groups s ! g))"
      if "g < length (groups s)" for g
    proof -
      from that len have g: "g < length G2" by simp
      have "g < length (fold pushRow ?all ?empty)"
        using map_eq_length [OF Blen] g by simp
      from map_eq_nth [OF Blen this]
      have "length (map instancesByType (groups s) ! g) = length (?empty ! g)"
        unfolding B .
      with g that show ?thesis by (simp add: ty)
    qed
    show "length (visibleInstancesByType (groups s ! g)) = length (types (groups s ! g))"
      if "g < length (groups s)" for g
    proof -
      from that len have g: "g < length G2" by simp
      have "map visibleInstancesByType (groups s) ! g = ?empty ! g" by (simp only: V)
      with g that show ?thesis by (simp add: ty)
    qed
    show "length (instancesByType (groups s ! g) ! t) = pairCount g t (chunkInsts (grass_chunks s))"
      if "g < length (groups s)" "t < length (types (groups s ! g))" for g t
    proof -
      from that len have g: "g < length G2" by simp
      from that ty [OF g] have t: "t < length (types (G2 ! g))" by simp
      have "map instancesByType (groups s) ! g ! t = ?empty ! g ! t @ filter (grassMatch g t) ?all"
        unfolding B using g t by (intro fold_pushRow_nth) simp_all
      then have "instancesByType (groups s ! g) ! t = filter (grassMatch g t) ?all"
        using g t that by simp
      then show ?thesis
        unfolding pairCount_def C
        by (simp only: organizeIntoChunks_count [OF ch])
    qed
    show "sz = word_of_nat ((if totalGroupInstances (groups s ! g) = 0 then 1000
                               else totalGroupInstances (groups s ! g)) * sizeof_GrassInstanceGPU)"
      if "g < length (groups s)" "t < length (types (groups s ! g))"
         "instanceBuffers (groups s ! g) ! t = Some sz" for g t sz
    proof -
      from that len len5 have g: "g < length (groups ?s5)" by simp
      have m1: "map types (groups s) = map types (groups ?s5)"
        unfolding s_eq by (rule Grass_createInstanceBuffers_maps(1))
      have m2: "map instancesByType (groups s) = map instancesByType (groups ?s5)"
        unfolding s_eq by (rule Grass_createInstanceBuffers_maps(2))
      have ty5: "types (groups s ! g) = types (groups ?s5 ! g)"
        by (rule map_eq_nth [OF m1 that(1)])
      have ib5: "instancesByType (groups s ! g) = instancesByType (groups ?s5 ! g)"
        by (rule map_eq_nth [OF m2 that(1)])
      have "totalGroupInstances (groups s ! g) = totalGroupInstances (groups ?s5 ! g)"
        by (rule totalGroupInstances_cong [OF ty5 ib5])
      moreover from that(2) ty5 have "t < length (types (groups ?s5 ! g))" by simp
      from Grass_createInstanceBuffers_nth [OF g this, of allocOk sz] that(3)
      have "sz = word_of_nat ((if totalGroupInstances (groups ?s5 ! g) = 0 then 1000
                            else totalGroupInstances (groups ?s5 ! g)) * sizeof_GrassInstanceGPU)"
        unfolding s_eq by simp
      ultimately show ?thesis by simp
    qed
    show "grassIndexOk (groups s) inst" if "inst \<in> grass_held s" for inst
    proof -
      have "bucketInsts (fold pushRow ?all ?empty) \<subseteq> set ?all"
      proof
        fix a assume "a \<in> bucketInsts (fold pushRow ?all ?empty)"
        then obtain g t where gt: "g < length (fold pushRow ?all ?empty)"
          "t < length (fold pushRow ?all ?empty ! g)" "a \<in> set (fold pushRow ?all ?empty ! g ! t)"
          unfolding bucketInsts_nth_gen by blast
        from gt(1) map_eq_length [OF Blen] have g: "g < length ?empty" by simp
        from gt(2) map_eq_nth [OF Blen gt(1)] have t: "t < length (?empty ! g)" by simp
        from g t have "?empty ! g ! t = []" by simp
        with gt(3) fold_pushRow_nth [OF g t, of ?all] show "a \<in> set ?all" by simp
      qed
      moreover have "bucketInsts ?empty = {}" by (auto simp: bucketInsts_def)
      ultimately have "inst \<in> set ?all"
        using that organizeIntoChunks_set [OF ch] by (auto simp: grass_held_def B V C)
      with allok have "grassIndexOk G2 inst" by blast
      then show ?thesis by (simp add: grassIndexOk_cong [OF T])
    qed
  qed
qed










section \<open>Culling, buffer capacity and index validity\<close>





lemma Grass_run_types: "map types (groups (Grass_run ops s)) = map types (groups s)"
  unfolding Grass_run_def
proof (induction ops arbitrary: s)
  case Nil
  then show ?case by simp
next
  case (Cons op ops)
  have "map types (groups (Grass_step op s)) = map types (groups s)"
    by (cases op)
       (simp_all add: Grass_draw_def Grass_performChunkCulling_def Let_def Grass_cull_maps(2))
  with Cons show ?case by simp
qed

text \<open>
  C6. After \<^verbatim>\<open>initWithInstances\<close> on a freshly constructed object returns with a non-empty
  palette, and after any sequence of later operations, every instance the subsystem holds
  (in \<open>allInstances\<close>, in a chunk, or in a bucket) has \<open>0 \<le> typeIndex < number of rock types\<close>
  for rocks, and \<open>0 \<le> groupIndex < number of groups\<close> and
  \<open>0 \<le> typeIndex < type count of that group\<close> for grass, whatever indices the supplied list
  carried; the palette itself is never changed by a later operation.
\<close>

theorem C6_index_validity:
  assumes "rocks_fresh r0"
      and "Rocks_initWithInstances loadedR allocR numModels numTextures preR viewR chunkR r0 = Some r1"
      and "rockTypes r1 \<noteq> []"
      and "grass_fresh g0"
      and "Grass_initWithInstances loadedG allocG configs preG viewG chunkG g0 = Some g1"
      and "groups g1 \<noteq> []"
  shows "(\<forall>inst \<in> rocks_held (Rocks_run rops r1).
            0 \<le> typeIndex inst \<and> typeIndex inst < int (length (rockTypes r1)))
       \<and> length (rockTypes (Rocks_run rops r1)) = length (rockTypes r1)
       \<and> (\<forall>inst \<in> grass_held (Grass_run gops g1).
            0 \<le> groupIndex inst \<and> groupIndex inst < int (length (groups g1))
          \<and> 0 \<le> typeIndex inst
          \<and> typeIndex inst < int (length (types (groups g1 ! nat (groupIndex inst)))))
       \<and> map types (groups (Grass_run gops g1)) = map types (groups g1)"
proof -
  have r: "rocks_ok (Rocks_run rops r1)"
    by (rule Rocks_run_ok [OF Rocks_init_ok [OF assms(1,2)]])
  have g: "grass_ok (Grass_run gops g1)"
    by (rule Grass_run_ok [OF Grass_init_ok [OF assms(4,5)]])
  have a: "\<forall>inst \<in> rocks_held (Rocks_run rops r1).
            0 \<le> typeIndex inst \<and> typeIndex inst < int (length (rockTypes r1))"
    using rocks_okD(5) [OF r] by (simp add: Rocks_run_rockTypes)
  have b: "\<forall>inst \<in> grass_held (Grass_run gops g1). grassIndexOk (groups g1) inst"
    using grass_okD(6) [OF g] by (simp add: grassIndexOk_cong [OF Grass_run_types])
  from a b show ?thesis
    by (simp add: Rocks_run_rockTypes Grass_run_types grassIndexOk_def)
qed

theorem C6_witness:
  "rocks_fresh exRocks0 \<and> exRocksInit = Some exRocks \<and> rockTypes exRocks \<noteq> []
   \<and> grass_fresh exGrass0 \<and> exGrassInit = Some exGrass \<and> groups exGrass \<noteq> []
   \<and> exRock 16 0 1 \<in> rocks_held (Rocks_run [RSetLodDistances 25 60, RDraw (\<lambda>t l. True) exCam] exRocks)
   \<and> 0 \<le> typeIndex (exRock 16 0 1) \<and> typeIndex (exRock 16 0 1) < int (length (rockTypes exRocks))
   \<and> exGrassInst 16 0 1 0 \<in> grass_held (Grass_run [GUpdate 1, GDraw (\<lambda>t l. True) exCam] exGrass)
   \<and> 0 \<le> groupIndex (exGrassInst 16 0 1 0)
   \<and> groupIndex (exGrassInst 16 0 1 0) < int (length (groups exGrass))
   \<and> 0 \<le> typeIndex (exGrassInst 16 0 1 0)
   \<and> typeIndex (exGrassInst 16 0 1 0)
        < int (length (types (groups exGrass ! nat (groupIndex (exGrassInst 16 0 1 0)))))"
proof -
  let ?rops = "[RSetLodDistances 25 60, RDraw (\<lambda>t l. True) exCam]"
  let ?gops = "[GUpdate 1, GDraw (\<lambda>t l. True) exCam]"
  note init = exRocksInit_Some [unfolded exRocksInit_def] exGrassInit_Some [unfolded exGrassInit_def]
  have rne: "rockTypes exRocks \<noteq> []" by (simp add: exRocks_eq)
  have gne: "groups exGrass \<noteq> []" by (simp add: exGrass_eq)
  note main = C6_index_validity [OF exRocks_fresh init(1) rne exGrass_fresh init(2) gne,
      where rops = ?rops and gops = ?gops]
  have rr: "Rocks_run ?rops exRocks = Rocks_cull exCam (exRocks\<lparr> lodDistanceHigh := 25, lodDistanceMedium := 60 \<rparr>)"
    by (simp add: Rocks_run_def Rocks_draw_def Rocks_performChunkCulling_def Let_def exRocks_eq)
  have gg: "Grass_run ?gops exGrass = Grass_cull exCam (exGrass\<lparr> windTime := 1 \<rparr>)"
    by (simp add: Grass_run_def Grass_draw_def Grass_performChunkCulling_def Let_def exGrass_eq)
  have rin: "exRock 16 0 1 \<in> rocks_held (Rocks_run ?rops exRocks)"
    unfolding rr exRocks_cull by (simp add: rocks_held_def)
  have gin: "exGrassInst 16 0 1 0 \<in> grass_held (Grass_run ?gops exGrass)"
    unfolding gg exGrass_cull by (simp add: grass_held_def)
  from main [THEN conjunct1, THEN bspec, OF rin]
  have a: "0 \<le> typeIndex (exRock 16 0 1) \<and> typeIndex (exRock 16 0 1) < int (length (rockTypes exRocks))" .
  from main [THEN conjunct2, THEN conjunct2, THEN conjunct1, THEN bspec, OF gin]
  have b: "0 \<le> groupIndex (exGrassInst 16 0 1 0)
   \<and> groupIndex (exGrassInst 16 0 1 0) < int (length (groups exGrass))
   \<and> 0 \<le> typeIndex (exGrassInst 16 0 1 0)
   \<and> typeIndex (exGrassInst 16 0 1 0)
        < int (length (types (groups exGrass ! nat (groupIndex (exGrassInst 16 0 1 0)))))" .
  from exRocks_fresh exRocksInit_Some rne exGrass_fresh exGrassInit_Some gne rin a gin b
  show ?thesis by blast
qed

section \<open>The vegetation generator\<close>

subsection \<open>The example run\<close>










lemma determineType_high:
  assumes "uniform_real ops 0 1 (rng s) = (u, r)" "0.95 \<le> u"
  shows "determineType ops x z s = (Grass, s\<lparr> rng := r \<rparr>)"
proof -
  have "\<And>v. clamp v 0.05 (0.95::real) \<le> 0.95" by (simp add: clamp_def)
  then have "\<And>v. \<not> u < clamp v 0.05 0.95" using assms(2) by (meson not_less order_trans)
  then show ?thesis using assms(1) by (simp add: determineType_def Let_def)
qed







subsection \<open>Spacing between items of one category\<close>


subsection \<open>Conversion to grass instances\<close>






text \<open>
  C10 as stated fails on the lake of the game: the item at
  (55.56224822998047, 31.30681610107422) is at distance 26.9999996 from the centre
  (30, 40), less than radius + 2 = 27, but its squared distance computed in binary32 is
  729.0, which is not below 27 * 27 = 729.0, so \<^verbatim>\<open>convertToGrassInstances\<close> keeps it.
\<close>

theorem C10_counterexample:
  "map position (convertToGrassInstances exOps (Some exGameLake) [exShoreItem] 4 3)
     = [position exShoreItem]
   \<and> lakeDistance exGameLake (position exShoreItem) < lake_radius exGameLake + 2"
proof -
  have k: "\<not> insideLake (Some exGameLake) exShoreItem" by code_simp
  have a: "map position (convertToGrassInstances exOps (Some exGameLake) [exShoreItem] 4 3)
             = [position exShoreItem]"
    using k by (simp add: convertToGrassInstances_def Let_def split: prod.split)
  have "(7282655 / 131072 - 30)\<^sup>2 + (4103447 / 131072 - 40)\<^sup>2 < (27::real)\<^sup>2"
    by (simp add: power2_eq_square)
  then have "sqrt ((7282655 / 131072 - 30)\<^sup>2 + (4103447 / 131072 - 40)\<^sup>2) < (27::real)"
    by (rule real_less_lsqrt [rotated]) simp
  then have b: "lakeDistance exGameLake (position exShoreItem) < lake_radius exGameLake + 2"
    by (simp add: lakeDistance_def exGameLake_def exShoreItem_def mkVec3_def)
  from a b show ?thesis by blast
qed




end
